theory Spec2Isabelle
  imports Complex_Main
begin

section \<open>Shared data: arrays, units, errors\<close>

text \<open>
  The source is \<^verbatim>\<open>src/psiflow/sampling/utils.py\<close>. Its numpy arrays are modelled over
  the reals (exact arithmetic): an \<open>N\<times>3\<close> array is a list of triples, a \<open>3\<times>3\<close> array is
  a triple of rows. The unit constants \<^verbatim>\<open>molmod.units.angstrom\<close> and
  \<^verbatim>\<open>molmod.units.electronvolt\<close> belong to the molmod library; they are taken as
  parameters (a record of two reals).
\<close>

type_synonym vec3 = "real \<times> real \<times> real"
type_synonym mat3 = "vec3 \<times> vec3 \<times> vec3"
type_synonym rows = "vec3 list"

record units =
  angstrom :: real
  electronvolt :: real

datatype error =
    ForceThresholdExceededException real nat
  | TypeError
  | ValueError
  | IndexError
  | AttributeError
  | AssertionError
  | LinAlgError

fun scale3 :: "real \<Rightarrow> vec3 \<Rightarrow> vec3" where
  "scale3 c (x, y, z) = (c * x, c * y, c * z)"

fun norm3 :: "vec3 \<Rightarrow> real" where
  "norm3 (x, y, z) = sqrt (x * x + y * y + z * z)"

definition zeros3 :: vec3 where
  "zeros3 = (0, 0, 0)"

definition zeros33 :: mat3 where
  "zeros33 = (zeros3, zeros3, zeros3)"

section \<open>The force field with its threshold check\<close>

text \<open>
  A force part, seen from the force field, is its \<^verbatim>\<open>compute(gpos, vtens)\<close>: it gets the
  two buffers (either may be \<^verbatim>\<open>None\<close>), returns its energy, and mutates the buffers it
  was given in place. The function returns the energy and the contents it leaves in the
  buffers; \<open>write_back\<close> stores them only in a buffer that exists, since a part cannot
  turn \<^verbatim>\<open>None\<close> into an array.
\<close>

type_synonym part = "rows option \<Rightarrow> mat3 option \<Rightarrow> real \<times> rows \<times> mat3"

record forcefield =
  parts :: "part list"
  force_threshold :: real
  needs_nlist_update :: bool
  nlist_updates :: nat

definition write_back :: "'a option \<Rightarrow> 'a \<Rightarrow> 'a option" where
  "write_back buf new = (case buf of None \<Rightarrow> None | Some _ \<Rightarrow> Some new)"

text \<open>\<^verbatim>\<open>[part.compute(gpos, vtens) for part in self.parts]\<close>: the parts run in list order
  on the same two buffers.\<close>

fun compute_parts :: "part list \<Rightarrow> rows option \<Rightarrow> mat3 option \<Rightarrow> real list \<times> rows option \<times> mat3 option" where
  "compute_parts [] gpos vtens = ([], gpos, vtens)"
| "compute_parts (p # ps) gpos vtens =
     (case p gpos vtens of (e, g, v) \<Rightarrow>
        (case compute_parts ps (write_back gpos g) (write_back vtens v) of
           (es, gpos', vtens') \<Rightarrow> (e # es, gpos', vtens')))"

text \<open>Python's \<^verbatim>\<open>sum(list)\<close>: a left fold from 0.\<close>

definition py_sum :: "real list \<Rightarrow> real" where
  "py_sum es = foldl (+) 0 es"

text \<open>\<^verbatim>\<open>np.max\<close> of a one-dimensional array raises ValueError on an empty array;
  \<^verbatim>\<open>np.argmax\<close> returns the first index of the maximum.\<close>

fun np_max :: "real list \<Rightarrow> error + real" where
  "np_max [] = Inl ValueError"
| "np_max (x # xs) = Inr (foldl max x xs)"

fun first_index :: "real \<Rightarrow> real list \<Rightarrow> nat" where
  "first_index m [] = 0"
| "first_index m (x # xs) = (if x = m then 0 else Suc (first_index m xs))"

fun np_argmax :: "real list \<Rightarrow> error + nat" where
  "np_argmax [] = Inl ValueError"
| "np_argmax (x # xs) = Inr (first_index (foldl max x xs) (x # xs))"

text \<open>\<^verbatim>\<open>ForceField.check_threshold(forces)\<close>, lines 105 to 111.\<close>

definition check_threshold :: "forcefield \<Rightarrow> rows \<Rightarrow> error + unit" where
  "check_threshold ff forces =
     (case np_max (map norm3 forces) of
        Inl e \<Rightarrow> Inl e
      | Inr max_force \<Rightarrow>
          (case np_argmax (map norm3 forces) of
             Inl e \<Rightarrow> Inl e
           | Inr index \<Rightarrow>
               if max_force > force_threshold ff
               then Inl (ForceThresholdExceededException max_force index)
               else Inr ()))"

text \<open>Line 101: \<^verbatim>\<open>forces = (-1.0) / electronvolt * angstrom * gpos\<close>. With \<^verbatim>\<open>gpos = None\<close>
  the product of a float and \<^verbatim>\<open>None\<close> raises TypeError.\<close>

definition physical_forces :: "units \<Rightarrow> rows option \<Rightarrow> error + rows" where
  "physical_forces u gpos =
     (case gpos of
        None \<Rightarrow> Inl TypeError
      | Some g \<Rightarrow> Inr (map (scale3 ((- 1) / electronvolt u * angstrom u)) g))"

text \<open>\<^verbatim>\<open>ForceField._internal_compute(gpos, vtens)\<close>, lines 96 to 103. The result holds the
  returned energy, the force field (its neighbour list flag) and the two buffers.\<close>

definition refresh_nlist :: "forcefield \<Rightarrow> forcefield" where
  "refresh_nlist ff =
     (if needs_nlist_update ff
      then ff\<lparr>nlist_updates := Suc (nlist_updates ff), needs_nlist_update := False\<rparr>
      else ff)"

definition ForceField_internal_compute ::
  "units \<Rightarrow> forcefield \<Rightarrow> rows option \<Rightarrow> mat3 option \<Rightarrow>
     error + (real \<times> forcefield \<times> rows option \<times> mat3 option)" where
  "ForceField_internal_compute u ff gpos vtens =
     (let ff' = refresh_nlist ff
      in case compute_parts (parts ff') gpos vtens of
           (es, gpos', vtens') \<Rightarrow>
             (let result = py_sum es
              in case physical_forces u gpos' of
                   Inl e \<Rightarrow> Inl e
                 | Inr forces \<Rightarrow>
                     (case check_threshold ff' forces of
                        Inl e \<Rightarrow> Inl e
                      | Inr _ \<Rightarrow> Inr (result, ff', gpos', vtens'))))"

text \<open>The energies the parts return, in registration order, and the buffers they leave.\<close>

definition part_energies :: "forcefield \<Rightarrow> rows option \<Rightarrow> mat3 option \<Rightarrow> real list" where
  "part_energies ff gpos vtens = fst (compute_parts (parts ff) gpos vtens)"

definition accumulated_gpos :: "forcefield \<Rightarrow> rows option \<Rightarrow> mat3 option \<Rightarrow> rows option" where
  "accumulated_gpos ff gpos vtens = fst (snd (compute_parts (parts ff) gpos vtens))"

definition accumulated_vtens :: "forcefield \<Rightarrow> rows option \<Rightarrow> mat3 option \<Rightarrow> mat3 option" where
  "accumulated_vtens ff gpos vtens = snd (snd (compute_parts (parts ff) gpos vtens))"

text \<open>The claim's side: the physical force on an atom is minus its gradient row, in
  eV/A (the gradient is in atomic units: times angstrom, divided by electronvolt), and
  the quantity compared with the threshold is its Euclidean norm.\<close>

definition force_norms :: "units \<Rightarrow> rows \<Rightarrow> real list" where
  "force_norms u g =
     map (\<lambda>(x, y, z). norm3 (- x * angstrom u / electronvolt u,
                              - y * angstrom u / electronvolt u,
                              - z * angstrom u / electronvolt u)) g"

text \<open>A force part for the examples: it returns the energy \<open>e\<close>, adds \<open>d\<close> to every row
  of the gradient buffer and leaves the virial buffer as it is.\<close>

fun add3 :: "vec3 \<Rightarrow> vec3 \<Rightarrow> vec3" where
  "add3 (a, b, c) (x, y, z) = (a + x, b + y, c + z)"

definition const_part :: "real \<Rightarrow> vec3 \<Rightarrow> part" where
  "const_part e d gpos vtens =
     (e, (case gpos of None \<Rightarrow> [] | Some g \<Rightarrow> map (add3 d) g),
         (case vtens of None \<Rightarrow> zeros33 | Some v \<Rightarrow> v))"

definition example_units :: units where
  "example_units = \<lparr>angstrom = 2, electronvolt = 1 / 2\<rparr>"

definition example_ff :: "real \<Rightarrow> forcefield" where
  "example_ff T = \<lparr>parts = [const_part 1 (0, 3 / 4, 0), const_part 2 (0, 0, 1)],
                   force_threshold = T, needs_nlist_update = True, nlist_updates = 0\<rparr>"

section \<open>The atomic system\<close>

text \<open>
  The yaff system the force parts read: atomic numbers, positions (\<open>N\<times>3\<close>), the cell's lattice vectors
  (\<^verbatim>\<open>cell.rvecs\<close>, one row per vector, so \<^verbatim>\<open>cell.nvec\<close> is the number of rows), masses
  and charges (either may be \<^verbatim>\<open>None\<close>).
\<close>

record system =
  numbers :: "nat list"
  pos :: rows
  rvecs :: rows
  masses :: "real list option"
  charges :: "real list option"

fun div3 :: "vec3 \<Rightarrow> real \<Rightarrow> vec3" where
  "div3 (x, y, z) c = (x / c, y / c, z / c)"

fun neg3 :: "vec3 \<Rightarrow> vec3" where
  "neg3 (x, y, z) = (- x, - y, - z)"

fun mat_scale :: "real \<Rightarrow> mat3 \<Rightarrow> mat3" where
  "mat_scale c (r1, r2, r3) = (scale3 c r1, scale3 c r2, scale3 c r3)"

fun det3 :: "mat3 \<Rightarrow> real" where
  "det3 ((a, b, c), (d, e, f), (g, h, i)) =
     a * (e * i - f * h) - b * (d * i - f * g) + c * (d * h - e * g)"

section \<open>The force part around an ASE calculator\<close>

text \<open>
  The ASE atoms object with its calculator is external: it is given the positions and
  the cell, and answers with the energy, the forces (\<open>N\<times>3\<close>) and the full \<open>3\<times>3\<close> stress
  (\<^verbatim>\<open>get_stress(voigt=False)\<close>) of that configuration.
\<close>

record calculator =
  get_potential_energy :: "rows \<Rightarrow> mat3 \<Rightarrow> real"
  get_forces :: "rows \<Rightarrow> mat3 \<Rightarrow> rows"
  get_stress :: "rows \<Rightarrow> mat3 \<Rightarrow> mat3"

text \<open>\<^verbatim>\<open>Cell(array)\<close> of ASE takes a \<open>3\<times>3\<close> array and asserts that shape.\<close>

fun ase_Cell :: "rows \<Rightarrow> error + mat3" where
  "ase_Cell [r1, r2, r3] = Inr (r1, r2, r3)"
| "ase_Cell _ = Inl AssertionError"

text \<open>The numpy slice assignment \<^verbatim>\<open>buf[:] = value\<close> on arrays of shapes \<open>(N, 3)\<close> and
  \<open>(M, 3)\<close>: the buffer's old contents are replaced; a value of one row is broadcast to
  every row; any other \<open>M \<noteq> N\<close> raises ValueError.\<close>

definition assign_rows :: "rows \<Rightarrow> rows \<Rightarrow> error + rows" where
  "assign_rows buf val =
     (if length val = length buf then Inr val
      else if length val = 1 then Inr (replicate (length buf) (hd val))
      else Inl ValueError)"

text \<open>\<^verbatim>\<open>ForcePartASE._internal_compute(gpos=None, vtens=None)\<close>, lines 75 to 86. The
  result holds the returned energy and the two buffers after the call.\<close>

definition ForcePartASE_internal_compute ::
  "units \<Rightarrow> calculator \<Rightarrow> system \<Rightarrow> rows option \<Rightarrow> mat3 option \<Rightarrow>
     error + (real \<times> rows option \<times> mat3 option)" where
  "ForcePartASE_internal_compute u atoms sys gpos vtens =
     (let positions = map (\<lambda>p. div3 p (angstrom u)) (pos sys)
      in case ase_Cell (map (\<lambda>r. div3 r (angstrom u)) (rvecs sys)) of
           Inl e \<Rightarrow> Inl e
         | Inr cell \<Rightarrow>
             (let energy = get_potential_energy atoms positions cell * electronvolt u
              in case (case gpos of
                         None \<Rightarrow> Inr None
                       | Some g \<Rightarrow>
                           (let forces = get_forces atoms positions cell
                            in case assign_rows g
                                 (map (\<lambda>f. div3 (scale3 (electronvolt u) (neg3 f)) (angstrom u)) forces) of
                                 Inl e \<Rightarrow> Inl e
                               | Inr g' \<Rightarrow> Inr (Some g'))) of
                   Inl e \<Rightarrow> Inl e
                 | Inr gpos' \<Rightarrow>
                     (let vtens' =
                        (case vtens of
                           None \<Rightarrow> None
                         | Some v \<Rightarrow>
                             (let stress = get_stress atoms positions cell;
                                  volume = det3 cell
                              in Some (mat_scale (electronvolt u) (mat_scale volume stress))))
                      in Inr (energy, gpos', vtens'))))"

text \<open>What the calculator is asked about: the positions and the cell in angstrom.\<close>

definition ase_positions :: "units \<Rightarrow> system \<Rightarrow> rows" where
  "ase_positions u sys = map (\<lambda>p. div3 p (angstrom u)) (pos sys)"

definition ase_cell :: "units \<Rightarrow> vec3 \<Rightarrow> vec3 \<Rightarrow> vec3 \<Rightarrow> mat3" where
  "ase_cell u r1 r2 r3 = (div3 r1 (angstrom u), div3 r2 (angstrom u), div3 r3 (angstrom u))"

text \<open>What the code leaves in the buffers. The gradient is minus the force, converted
  from eV/A to atomic units. The virial is the stress times the number the code calls
  \<^verbatim>\<open>volume\<close>, converted from eV; that number is \<^verbatim>\<open>np.linalg.det\<close> of the cell, the signed
  determinant.\<close>

definition minus_force :: "units \<Rightarrow> vec3 \<Rightarrow> vec3" where
  "minus_force u f =
     (case f of (x, y, z) \<Rightarrow>
        (- x * electronvolt u / angstrom u,
         - y * electronvolt u / angstrom u,
         - z * electronvolt u / angstrom u))"

definition det_times_stress :: "units \<Rightarrow> mat3 \<Rightarrow> mat3 \<Rightarrow> mat3" where
  "det_times_stress u c stress =
     (case stress of ((a, b, c'), (d, e, f), (g, h, i)) \<Rightarrow>
        (let w = det3 c * electronvolt u
         in ((w * a, w * b, w * c'), (w * d, w * e, w * f), (w * g, w * h, w * i))))"

text \<open>The claim's side: the volume of a cell is the absolute value of the determinant
  of its lattice vectors, and the virial is that volume times the stress, converted from
  eV.\<close>

definition cell_volume :: "mat3 \<Rightarrow> real" where
  "cell_volume c = \<bar>det3 c\<bar>"

definition volume_times_stress :: "units \<Rightarrow> mat3 \<Rightarrow> mat3 \<Rightarrow> mat3" where
  "volume_times_stress u c stress =
     (case stress of ((a, b, c'), (d, e, f), (g, h, i)) \<Rightarrow>
        (let w = cell_volume c * electronvolt u
         in ((w * a, w * b, w * c'), (w * d, w * e, w * f), (w * g, w * h, w * i))))"

text \<open>A calculator for the examples: two atoms, fixed answers.\<close>

definition example_calculator :: calculator where
  "example_calculator =
     \<lparr>get_potential_energy = (\<lambda>p c. 3),
      get_forces = (\<lambda>p c. [(1, 0, 0), (0, - 2, 4)]),
      get_stress = (\<lambda>p c. ((1, 2, 3), (2, 4, 5), (3, 5, 6)))\<rparr>"

text \<open>The same two atoms in a left-handed cell: the first two lattice vectors are
  exchanged, so the determinant is negative.\<close>

definition left_handed_system :: system where
  "left_handed_system =
     \<lparr>numbers = [1, 1],
      pos = [(0, 0, 0), (2, 0, 0)],
      rvecs = [(0, 4, 0), (4, 0, 0), (0, 0, 6)],
      masses = Some [1, 1],
      charges = None\<rparr>"

definition example_system :: system where
  "example_system =
     \<lparr>numbers = [1, 1],
      pos = [(0, 0, 0), (2, 0, 0)],
      rvecs = [(4, 0, 0), (0, 4, 0), (0, 0, 6)],
      masses = Some [1, 1],
      charges = None\<rparr>"

section \<open>The bias force part (PLUMED)\<close>

text \<open>
  The PLUMED engine is external, and the code drives it through \<^verbatim>\<open>plumed.cmd\<close> only. A
  command is one such call with its argument. The engine is a black box that has seen a
  history of commands: whether it raises on the next command, what its calculation has
  left in the forces and virial arrays it was handed, and the bias it reports are
  functions of that history, and they are parameters of the model.
\<close>

datatype plumed_cmd =
    SetStep int
  | SetPositions rows
  | SetMasses "real list option"
  | SetCharges "real list"
  | SetBox rows
  | SetForces rows
  | SetVirial mat3
  | PrepareCalc
  | PerformCalcNoUpdate
  | GetBias

record plumed =
  plumed_raises :: "plumed_cmd list \<Rightarrow> plumed_cmd \<Rightarrow> error option"
  plumed_written :: "plumed_cmd list \<Rightarrow> rows \<times> mat3"
  plumed_bias :: "plumed_cmd list \<Rightarrow> real"

text \<open>\<^verbatim>\<open>self.plumed.cmd(name, argument)\<close>: the engine raises, or the command joins its
  history. A sequence of calls stops at the first one that raises.\<close>

definition cmd :: "plumed \<Rightarrow> plumed_cmd list \<Rightarrow> plumed_cmd \<Rightarrow> error + plumed_cmd list" where
  "cmd p h c = (case plumed_raises p h c of Some e \<Rightarrow> Inl e | None \<Rightarrow> Inr (h @ [c]))"

fun cmds :: "plumed \<Rightarrow> plumed_cmd list \<Rightarrow> plumed_cmd list \<Rightarrow> error + plumed_cmd list" where
  "cmds p h [] = Inr h"
| "cmds p h (c # cs) = (case cmd p h c of Inl e \<Rightarrow> Inl e | Inr h' \<Rightarrow> cmds p h' cs)"

text \<open>Lines 15 to 22: what the engine is told about the system. The charges are set
  when the system has them, the box when the cell has at least one vector.\<close>

definition system_cmds :: "int \<Rightarrow> system \<Rightarrow> plumed_cmd list" where
  "system_cmds plumedstep sys =
     [SetStep plumedstep, SetPositions (pos sys), SetMasses (masses sys)]
     @ (case charges sys of None \<Rightarrow> [] | Some q \<Rightarrow> [SetCharges q])
     @ (if length (rvecs sys) > 0 then [SetBox (rvecs sys)] else [])"

text \<open>Lines 27 to 36: the arrays handed to the engine. Without a caller's buffer, a
  fresh array of zeros; the caller's gradient buffer is negated first.\<close>

definition my_gpos :: "system \<Rightarrow> rows option \<Rightarrow> rows" where
  "my_gpos sys gpos =
     (case gpos of
        None \<Rightarrow> replicate (length (pos sys)) zeros3
      | Some g \<Rightarrow> map (scale3 (- 1)) g)"

definition my_vtens :: "mat3 option \<Rightarrow> mat3" where
  "my_vtens vtens = (case vtens of None \<Rightarrow> zeros33 | Some v \<Rightarrow> v)"

text \<open>\<^verbatim>\<open>ForcePartPlumed._internal_compute(gpos, vtens)\<close>, lines 14 to 46, on an engine
  with the history \<open>h\<close>. After \<^verbatim>\<open>performCalcNoUpdate\<close> the caller's gradient buffer is the
  forces array the engine wrote, negated again (line 42), and the caller's virial buffer
  is the virial array the engine wrote. The result holds the returned energy, the two
  buffers and the engine's history after the call.\<close>

definition ForcePartPlumed_internal_compute ::
  "plumed \<Rightarrow> plumed_cmd list \<Rightarrow> int \<Rightarrow> system \<Rightarrow> rows option \<Rightarrow> mat3 option \<Rightarrow>
     error + (real \<times> rows option \<times> mat3 option \<times> plumed_cmd list)" where
  "ForcePartPlumed_internal_compute p h plumedstep sys gpos vtens =
     (case cmds p h (system_cmds plumedstep sys
                     @ [SetForces (my_gpos sys gpos), SetVirial (my_vtens vtens),
                        PrepareCalc, PerformCalcNoUpdate]) of
        Inl e \<Rightarrow> Inl e
      | Inr h1 \<Rightarrow>
          (case plumed_written p h1 of
             (forces, virial) \<Rightarrow>
               (let gpos' = (case gpos of None \<Rightarrow> None
                                        | Some _ \<Rightarrow> Some (map (scale3 (- 1)) forces));
                    vtens' = (case vtens of None \<Rightarrow> None | Some _ \<Rightarrow> Some virial)
                in case cmd p h1 GetBias of
                     Inl e \<Rightarrow> Inl e
                   | Inr h2 \<Rightarrow> Inr (plumed_bias p h2, gpos', vtens', h2))))"

text \<open>
  What the spec says of the engine: it is a black box that, given positions, masses,
  charges and box, returns a bias energy and writes forces and virial into the buffers it
  is handed. So what the buffers hold when they are handed over changes neither the bias
  nor whether a command raises; only their shape may matter. \<open>erase\<close> replaces the
  contents of a handed buffer by zeros of the same shape.
\<close>

fun erase :: "plumed_cmd \<Rightarrow> plumed_cmd" where
  "erase (SetForces f) = SetForces (replicate (length f) zeros3)"
| "erase (SetVirial v) = SetVirial zeros33"
| "erase c = c"

definition buffer_blind :: "plumed \<Rightarrow> bool" where
  "buffer_blind p =
     ((\<forall>h c. plumed_raises p h c = plumed_raises p (map erase h) (erase c)) \<and>
      (\<forall>h. plumed_bias p h = plumed_bias p (map erase h)))"

text \<open>An engine for the examples: it raises when the masses are missing, its bias is
  harmonic in the first coordinate of the positions it was last told, and it adds its
  forces and its virial to what the handed arrays held.\<close>

fun mat_add :: "mat3 \<Rightarrow> mat3 \<Rightarrow> mat3" where
  "mat_add (a1, a2, a3) (b1, b2, b3) = (add3 a1 b1, add3 a2 b2, add3 a3 b3)"

definition latest_positions :: "plumed_cmd list \<Rightarrow> rows" where
  "latest_positions h = foldl (\<lambda>acc c. case c of SetPositions x \<Rightarrow> x | _ \<Rightarrow> acc) [] h"

definition latest_forces :: "plumed_cmd list \<Rightarrow> rows" where
  "latest_forces h = foldl (\<lambda>acc c. case c of SetForces f \<Rightarrow> f | _ \<Rightarrow> acc) [] h"

definition latest_virial :: "plumed_cmd list \<Rightarrow> mat3" where
  "latest_virial h = foldl (\<lambda>acc c. case c of SetVirial v \<Rightarrow> v | _ \<Rightarrow> acc) zeros33 h"

definition example_plumed :: plumed where
  "example_plumed =
     \<lparr>plumed_raises = (\<lambda>h c. case c of SetMasses None \<Rightarrow> Some TypeError | _ \<Rightarrow> None),
      plumed_written = (\<lambda>h. (map2 add3 (map (\<lambda>(x, y, z). (- x, 0, 0)) (latest_positions h))
                                        (latest_forces h),
                              mat_add ((1, 0, 0), (0, 0, 0), (0, 0, 0)) (latest_virial h))),
      plumed_bias = (\<lambda>h. sum_list (map (\<lambda>(x, y, z). x * x / 2) (latest_positions h)))\<rparr>"

section \<open>The trajectory hook that writes a file\<close>

text \<open>
  An ASE atoms object as the hooks use it, and the integrator's state as a hook sees it:
  the iteration counter and the system. The file at \<^verbatim>\<open>path_xyz\<close> is the list of frames
  appended to it.
\<close>

record atoms =
  a_numbers :: "nat list"
  a_positions :: rows
  a_cell :: rows
  a_pbc :: bool

record iterative =
  counter :: nat
  it_system :: system

record ExtXYZHook =
  start :: nat
  step :: nat
  path_xyz :: "atoms list"
  hook_atoms :: "atoms option"

text \<open>\<^verbatim>\<open>ExtXYZHook.init(iterative)\<close>, lines 160 to 166.\<close>

definition ExtXYZHook_init :: "units \<Rightarrow> ExtXYZHook \<Rightarrow> iterative \<Rightarrow> ExtXYZHook" where
  "ExtXYZHook_init u h it =
     h\<lparr>hook_atoms := Some
         \<lparr>a_numbers = numbers (it_system it),
          a_positions = map (\<lambda>p. div3 p (angstrom u)) (pos (it_system it)),
          a_cell = map (\<lambda>r. div3 r (angstrom u)) (rvecs (it_system it)),
          a_pbc = True\<rparr>\<rparr>"

text \<open>\<^verbatim>\<open>ExtXYZHook.__call__(iterative)\<close>, lines 174 to 178. Before \<^verbatim>\<open>init\<close> the hook's
  atoms are \<^verbatim>\<open>None\<close>, and \<^verbatim>\<open>None.set_positions\<close> raises AttributeError.\<close>

definition ExtXYZHook_call :: "units \<Rightarrow> ExtXYZHook \<Rightarrow> iterative \<Rightarrow> error + ExtXYZHook" where
  "ExtXYZHook_call u h it =
     (if counter it > 0
      then (case hook_atoms h of
              None \<Rightarrow> Inl AttributeError
            | Some a \<Rightarrow>
                (let a' = a\<lparr>a_positions := map (\<lambda>p. div3 p (angstrom u)) (pos (it_system it)),
                            a_cell := map (\<lambda>r. div3 r (angstrom u)) (rvecs (it_system it))\<rparr>
                 in Inr (h\<lparr>hook_atoms := Some a', path_xyz := path_xyz h @ [a']\<rparr>)))
      else Inr h)"

text \<open>
  Modelled from the spec: the schedule of a hook, which is yaff's and not in the source.
  The integrator invokes a hook at the iterations \<open>start\<close>, \<open>start + step\<close>,
  \<open>start + 2 * step\<close>, ...; \<open>scheduled_counter start step k\<close> is the iteration of its
  scheduled call number \<open>k\<close>, the first one being number 0.
\<close>

definition scheduled_counter :: "nat \<Rightarrow> nat \<Rightarrow> nat \<Rightarrow> nat" where
  "scheduled_counter start' step' k = start' + k * step'"

text \<open>The frame a call writes: the hook's atoms with the current positions and box.\<close>

definition current_frame :: "units \<Rightarrow> atoms \<Rightarrow> iterative \<Rightarrow> atoms" where
  "current_frame u a it =
     \<lparr>a_numbers = a_numbers a,
      a_positions = map (\<lambda>p. div3 p (angstrom u)) (pos (it_system it)),
      a_cell = map (\<lambda>r. div3 r (angstrom u)) (rvecs (it_system it)),
      a_pbc = a_pbc a\<rparr>"

definition example_iterative :: "nat \<Rightarrow> iterative" where
  "example_iterative n = \<lparr>counter = n, it_system = example_system\<rparr>"

definition example_hook :: "nat \<Rightarrow> nat \<Rightarrow> ExtXYZHook" where
  "example_hook start' step' =
     ExtXYZHook_init example_units
       \<lparr>start = start', step = step', path_xyz = [], hook_atoms = None\<rparr> (example_iterative 0)"

section \<open>The parser of the integrator's output\<close>

text \<open>
  A Python \<^verbatim>\<open>str\<close> is modelled as a \<open>string\<close> whose characters are the code points
  below 256. \<^verbatim>\<open>str.split()\<close> without arguments splits at runs of whitespace and returns
  no empty token; the whitespace code points below 256 are 9 to 13, 28 to 32, 133
  and 160.
\<close>

definition is_space :: "char \<Rightarrow> bool" where
  "is_space c = (of_char c \<in> set [9, 10, 11, 12, 13, 28, 29, 30, 31, 32, 133, 160 :: nat])"

fun split_words :: "string \<Rightarrow> string \<Rightarrow> string list" where
  "split_words w [] = (if w = [] then [] else [rev w])"
| "split_words w (c # cs) =
     (if is_space c then (if w = [] then split_words [] cs else rev w # split_words [] cs)
      else split_words (c # w) cs)"

definition py_split :: "string \<Rightarrow> string list" where
  "py_split s = split_words [] s"

text \<open>\<^verbatim>\<open>stdout.split('\n')\<close>: the pieces between line feeds, empty ones included.\<close>

fun split_lines :: "string \<Rightarrow> string list" where
  "split_lines [] = [[]]"
| "split_lines (c # cs) =
     (if c = CHR 0x0A then [] # split_lines cs
      else (case split_lines cs of [] \<Rightarrow> [[c]] | l # ls \<Rightarrow> (c # l) # ls))"

text \<open>\<^verbatim>\<open>pat in s\<close> for strings: \<open>pat\<close> occurs in \<open>s\<close> as a contiguous substring.\<close>

fun starts_with :: "string \<Rightarrow> string \<Rightarrow> bool" where
  "starts_with [] s = True"
| "starts_with (p # ps) [] = False"
| "starts_with (p # ps) (c # cs) = (p = c \<and> starts_with ps cs)"

fun contains :: "string \<Rightarrow> string \<Rightarrow> bool" where
  "contains pat [] = (pat = [])"
| "contains pat (c # cs) = (starts_with pat (c # cs) \<or> contains pat cs)"

text \<open>
  Which tokens \<^verbatim>\<open>float()\<close> and \<^verbatim>\<open>int()\<close> accept (a token has no whitespace, so there is
  nothing to strip). In both, an underscore may stand between two digits and nowhere
  else. \<^verbatim>\<open>float\<close> takes an optional sign and then \<^verbatim>\<open>inf\<close>, \<^verbatim>\<open>infinity\<close> or \<^verbatim>\<open>nan\<close> in any
  case, or digits with an optional point (at least one digit) and an optional exponent
  (\<^verbatim>\<open>e\<close> or \<^verbatim>\<open>E\<close>, an optional sign, at least one digit). \<^verbatim>\<open>int\<close> takes an optional sign and
  at least one digit, in base 10. The limit Python 3.11 puts on the number of digits
  \<^verbatim>\<open>int()\<close> converts (4300) is not modelled.
\<close>

definition is_digit :: "char \<Rightarrow> bool" where
  "is_digit c = (c \<in> set ''0123456789'')"

fun underscores_ok :: "char \<Rightarrow> string \<Rightarrow> bool" where
  "underscores_ok prev [] = (prev \<noteq> CHR ''_'')"
| "underscores_ok prev (c # cs) =
     (if c = CHR ''_'' then is_digit prev \<and> underscores_ok c cs
      else if prev = CHR ''_'' then is_digit c \<and> underscores_ok c cs
      else underscores_ok c cs)"

definition strip_sign :: "string \<Rightarrow> string" where
  "strip_sign s = (case s of [] \<Rightarrow> [] | c # cs \<Rightarrow> if c = CHR ''+'' \<or> c = CHR ''-'' then cs else s)"

definition lower :: "char \<Rightarrow> char" where
  "lower c = (if 65 \<le> (of_char c :: nat) \<and> (of_char c :: nat) \<le> 90
              then char_of (of_char c + 32 :: nat) else c)"

definition exponent_ok :: "string \<Rightarrow> bool" where
  "exponent_ok s =
     (case s of
        [] \<Rightarrow> True
      | c # cs \<Rightarrow> (c = CHR ''e'' \<or> c = CHR ''E'') \<and> strip_sign cs \<noteq> [] \<and>
                  list_all is_digit (strip_sign cs))"

definition number_ok :: "string \<Rightarrow> bool" where
  "number_ok s =
     (let int_part = takeWhile is_digit s;
          rest = dropWhile is_digit s
      in case rest of
           c # cs \<Rightarrow>
             if c = CHR ''.''
             then (int_part \<noteq> [] \<or> takeWhile is_digit cs \<noteq> []) \<and>
                  exponent_ok (dropWhile is_digit cs)
             else int_part \<noteq> [] \<and> exponent_ok rest
         | [] \<Rightarrow> int_part \<noteq> [])"

definition py_float_ok :: "string \<Rightarrow> bool" where
  "py_float_ok s =
     (underscores_ok (CHR 0x00) s \<and>
      (let t = strip_sign (filter (\<lambda>c. c \<noteq> CHR ''_'') s)
       in map lower t \<in> set [''inf'', ''infinity'', ''nan''] \<or> number_ok t))"

definition digit_value :: "char \<Rightarrow> int" where
  "digit_value c = int (of_char c) - 48"

definition py_int :: "string \<Rightarrow> int option" where
  "py_int s =
     (let body = strip_sign s;
          ds = filter (\<lambda>c. c \<noteq> CHR ''_'') body;
          n = foldl (\<lambda>acc c. 10 * acc + digit_value c) 0 ds
      in if ds \<noteq> [] \<and> list_all is_digit ds \<and> underscores_ok (CHR 0x00) body
         then Some (if starts_with ''-'' s then - n else n)
         else None)"

text \<open>
  \<^verbatim>\<open>parse_yaff_output(stdout)\<close>, lines 230 to 246. The loop over the reversed lines:
  a line without the keyword is passed over; on a line with it, the tokens after the
  first go through \<^verbatim>\<open>float\<close> inside the \<^verbatim>\<open>try\<close>, and a ValueError there continues with the
  next line; \<^verbatim>\<open>int(line.split()[1])\<close> stands after the \<^verbatim>\<open>try\<close>, so its IndexError (no
  second token) and its ValueError (a second token that \<^verbatim>\<open>float\<close> takes and \<^verbatim>\<open>int\<close> does not)
  leave the function.
\<close>

fun scan_lines :: "string list \<Rightarrow> error + int" where
  "scan_lines [] = Inr 0"
| "scan_lines (line # ls) =
     (if contains ''VERLET'' line
      then (if list_all py_float_ok (tl (py_split line))
            then (case py_split line of
                    _ # t # _ \<Rightarrow> (case py_int t of None \<Rightarrow> Inl ValueError | Some n \<Rightarrow> Inr n)
                  | _ \<Rightarrow> Inl IndexError)
            else scan_lines ls)
      else scan_lines ls)"

definition parse_yaff_output :: "string \<Rightarrow> error + (string \<times> int)" where
  "parse_yaff_output stdout =
     (case scan_lines (rev (split_lines stdout)) of
        Inl e \<Rightarrow> Inl e
      | Inr n \<Rightarrow> Inr (if contains ''unsafe'' stdout then ''unsafe'' else ''safe'', n))"

section \<open>Strain and box\<close>

text \<open>
  The arguments of \<^verbatim>\<open>apply_strain\<close> and \<^verbatim>\<open>compute_strain\<close> are \<open>3\<times>3\<close> arrays of finite
  numbers, modelled over the reals. \<^verbatim>\<open>np.sqrt\<close> of a negative number is NaN (numpy
  warns and goes on), and NaN spreads through every sum and product, so the arrays
  computed from a square root have entries that are a real number or NaN.
\<close>

datatype npfloat = Num real | NaN

type_synonym fvec3 = "npfloat \<times> npfloat \<times> npfloat"
type_synonym fmat3 = "fvec3 \<times> fvec3 \<times> fvec3"

fun fadd :: "npfloat \<Rightarrow> npfloat \<Rightarrow> npfloat" where
  "fadd (Num x) (Num y) = Num (x + y)"
| "fadd _ _ = NaN"

fun fmul :: "npfloat \<Rightarrow> npfloat \<Rightarrow> npfloat" where
  "fmul (Num x) (Num y) = Num (x * y)"
| "fmul _ _ = NaN"

definition np_sqrt :: "real \<Rightarrow> npfloat" where
  "np_sqrt x = (if x < 0 then NaN else Num (sqrt x))"

fun map_vec :: "('a \<Rightarrow> 'b) \<Rightarrow> 'a \<times> 'a \<times> 'a \<Rightarrow> 'b \<times> 'b \<times> 'b" where
  "map_vec f (x, y, z) = (f x, f y, f z)"

fun map_mat :: "('a \<Rightarrow> 'b) \<Rightarrow> ('a \<times> 'a \<times> 'a) \<times> ('a \<times> 'a \<times> 'a) \<times> ('a \<times> 'a \<times> 'a) \<Rightarrow>
    ('b \<times> 'b \<times> 'b) \<times> ('b \<times> 'b \<times> 'b) \<times> ('b \<times> 'b \<times> 'b)" where
  "map_mat f (r1, r2, r3) = (map_vec f r1, map_vec f r2, map_vec f r3)"

text \<open>\<^verbatim>\<open>m.T\<close>, \<^verbatim>\<open>np.eye(3)\<close>, \<^verbatim>\<open>np.diag(values)\<close> and the matrix product \<^verbatim>\<open>a @ b\<close>, the
  last one over the reals and over the numbers with NaN.\<close>

fun transpose3 :: "('a \<times> 'a \<times> 'a) \<times> ('a \<times> 'a \<times> 'a) \<times> ('a \<times> 'a \<times> 'a) \<Rightarrow>
    ('a \<times> 'a \<times> 'a) \<times> ('a \<times> 'a \<times> 'a) \<times> ('a \<times> 'a \<times> 'a)" where
  "transpose3 ((a, b, c), (d, e, f), (g, h, i)) = ((a, d, g), (b, e, h), (c, f, i))"

definition np_eye3 :: mat3 where
  "np_eye3 = ((1, 0, 0), (0, 1, 0), (0, 0, 1))"

fun np_diag :: "vec3 \<Rightarrow> mat3" where
  "np_diag (x, y, z) = ((x, 0, 0), (0, y, 0), (0, 0, z))"

fun matmul :: "mat3 \<Rightarrow> mat3 \<Rightarrow> mat3" where
  "matmul ((a, b, c), (d, e, f), (g, h, i)) ((p, q, r), (s, t, u), (v, w, x)) =
     ((a * p + b * s + c * v, a * q + b * t + c * w, a * r + b * u + c * x),
      (d * p + e * s + f * v, d * q + e * t + f * w, d * r + e * u + f * x),
      (g * p + h * s + i * v, g * q + h * t + i * w, g * r + h * u + i * x))"

fun fdot :: "fvec3 \<Rightarrow> npfloat \<Rightarrow> npfloat \<Rightarrow> npfloat \<Rightarrow> npfloat" where
  "fdot (a, b, c) p s v = fadd (fadd (fmul a p) (fmul b s)) (fmul c v)"

fun fmatmul :: "fmat3 \<Rightarrow> fmat3 \<Rightarrow> fmat3" where
  "fmatmul (r1, r2, r3) ((p, q, r), (s, t, u), (v, w, x)) =
     ((fdot r1 p s v, fdot r1 q t w, fdot r1 r u x),
      (fdot r2 p s v, fdot r2 q t w, fdot r2 r u x),
      (fdot r3 p s v, fdot r3 q t w, fdot r3 r u x))"

fun fsub :: "npfloat \<Rightarrow> npfloat \<Rightarrow> npfloat" where
  "fsub (Num x) (Num y) = Num (x - y)"
| "fsub _ _ = NaN"

fun fvec_sub :: "fvec3 \<Rightarrow> fvec3 \<Rightarrow> fvec3" where
  "fvec_sub (a, b, c) (p, q, r) = (fsub a p, fsub b q, fsub c r)"

fun fmat_sub :: "fmat3 \<Rightarrow> fmat3 \<Rightarrow> fmat3" where
  "fmat_sub (a1, a2, a3) (b1, b2, b3) = (fvec_sub a1 b1, fvec_sub a2 b2, fvec_sub a3 b3)"

fun flatten :: "'a \<times> 'a \<times> 'a \<Rightarrow> 'a list" where
  "flatten (x, y, z) = [x, y, z]"

fun entries :: "('a \<times> 'a \<times> 'a) \<times> ('a \<times> 'a \<times> 'a) \<times> ('a \<times> 'a \<times> 'a) \<Rightarrow> 'a list" where
  "entries (r1, r2, r3) = flatten r1 @ flatten r2 @ flatten r3"

text \<open>\<^verbatim>\<open>np.allclose(a, b)\<close> with its default tolerances: every entry has
  \<open>|a - b| \<le> atol + rtol * |b|\<close>, with \<open>rtol = 1e-05\<close> and \<open>atol = 1e-08\<close>.\<close>

definition close_to :: "real \<Rightarrow> real \<Rightarrow> bool" where
  "close_to a b = (\<bar>a - b\<bar> \<le> 1 / 100000000 + 1 / 100000 * \<bar>b\<bar>)"

definition np_allclose :: "mat3 \<Rightarrow> mat3 \<Rightarrow> bool" where
  "np_allclose a b = list_all (\<lambda>(x, y). close_to x y) (zip (entries a) (entries b))"

text \<open>\<^verbatim>\<open>np.linalg.eigh\<close> is numpy's: it is a parameter, a function from a \<open>3\<times>3\<close> array to
  the eigenvalues and the array whose columns are the eigenvectors.\<close>

type_synonym eigh = "mat3 \<Rightarrow> vec3 \<times> mat3"

text \<open>\<^verbatim>\<open>apply_strain(strain, box0)\<close>, lines 181 to 206.\<close>

definition apply_strain :: "eigh \<Rightarrow> mat3 \<Rightarrow> mat3 \<Rightarrow> error + fmat3" where
  "apply_strain np_linalg_eigh strain box0 =
     (if \<not> np_allclose strain (transpose3 strain) then Inl AssertionError
      else (let A = mat_add (mat_scale 2 strain) np_eye3
            in case np_linalg_eigh A of
                 (values, vectors) \<Rightarrow>
                   (let sqrtA = fmatmul (fmatmul (map_mat Num vectors)
                                                 (map_mat np_sqrt (np_diag values)))
                                        (map_mat Num (transpose3 vectors));
                        box = fmatmul (map_mat Num box0) sqrtA
                    in Inr box)))"

text \<open>
  \<^verbatim>\<open>np.linalg.inv\<close> factorises its argument in floating point and raises LinAlgError
  only when the factorisation meets a pivot that is exactly zero. On a matrix that has an
  inverse the model returns the inverse (the adjugate divided by the determinant). On a
  matrix without an inverse rounding decides: numpy meets a zero pivot and raises, or
  the rounded pivots are all different from zero and it returns some matrix. That outcome
  is a parameter of the model: \<open>None\<close> for the zero pivot, else the matrix returned.
\<close>

type_synonym rounded_inv = "mat3 \<Rightarrow> mat3 option"

fun adjugate :: "mat3 \<Rightarrow> mat3" where
  "adjugate ((a, b, c), (d, e, f), (g, h, i)) =
     ((e * i - f * h, c * h - b * i, b * f - c * e),
      (f * g - d * i, a * i - c * g, c * d - a * f),
      (d * h - e * g, b * g - a * h, a * e - b * d))"

definition np_linalg_inv :: "rounded_inv \<Rightarrow> mat3 \<Rightarrow> error + mat3" where
  "np_linalg_inv rounded m =
     (if det3 m = 0
      then (case rounded m of None \<Rightarrow> Inl LinAlgError | Some w \<Rightarrow> Inr w)
      else Inr (mat_scale (1 / det3 m) (adjugate m)))"

text \<open>\<^verbatim>\<open>compute_strain(box, box0)\<close>, lines 209 to 227. The box may come from
  \<^verbatim>\<open>apply_strain\<close>, so its entries may be NaN.\<close>

definition compute_strain :: "rounded_inv \<Rightarrow> fmat3 \<Rightarrow> mat3 \<Rightarrow> error + fmat3" where
  "compute_strain rounded box box0 =
     (case np_linalg_inv rounded box0 of
        Inl e \<Rightarrow> Inl e
      | Inr box0inv \<Rightarrow>
          Inr (map_mat (fmul (Num (1 / 2)))
                 (fmat_sub
                    (fmatmul (fmatmul (fmatmul (map_mat Num box0inv) box) (transpose3 box))
                             (map_mat Num (transpose3 box0inv)))
                    (map_mat Num np_eye3))))"

text \<open>For the examples, two outcomes of the rounded factorisation of a matrix without an
  inverse: it meets a zero pivot; or rounding leaves \<open>- 1 / 2 ^ 50\<close> where the
  determinant 0 should be, and the matrix returned is the adjugate divided by that.\<close>

definition zero_pivot :: rounded_inv where
  "zero_pivot m = None"

definition tiny_pivot :: rounded_inv where
  "tiny_pivot m = Some (mat_scale (1 / (- (1 / 2 ^ 50))) (adjugate m))"

text \<open>The claim's side: a matrix is symmetric when it equals its transpose, and
  invertible when some matrix is its inverse.\<close>

definition symmetric :: "mat3 \<Rightarrow> bool" where
  "symmetric m = (transpose3 m = m)"

definition invertible :: "mat3 \<Rightarrow> bool" where
  "invertible m = (\<exists>n. matmul m n = np_eye3 \<and> matmul n m = np_eye3)"

text \<open>A matrix is positive-definite when its quadratic form is positive on every
  vector but 0.\<close>

fun dot3 :: "vec3 \<Rightarrow> vec3 \<Rightarrow> real" where
  "dot3 (a, b, c) (x, y, z) = a * x + b * y + c * z"

fun matvec :: "mat3 \<Rightarrow> vec3 \<Rightarrow> vec3" where
  "matvec (r1, r2, r3) x = (dot3 r1 x, dot3 r2 x, dot3 r3 x)"

definition positive_definite :: "mat3 \<Rightarrow> bool" where
  "positive_definite A = (\<forall>x. x \<noteq> (0, 0, 0) \<longrightarrow> dot3 x (matvec A x) > 0)"

text \<open>A matrix has a negative eigenvalue when it maps some vector other than 0 to a
  negative multiple of it.\<close>

definition has_negative_eigenvalue :: "mat3 \<Rightarrow> bool" where
  "has_negative_eigenvalue A = (\<exists>x l. x \<noteq> (0, 0, 0) \<and> l < 0 \<and> matvec A x = scale3 l x)"

text \<open>What \<^verbatim>\<open>np.linalg.eigh\<close> promises for a symmetric matrix \<open>A\<close>: eigenvalues \<open>w\<close> and
  orthonormal eigenvectors, the columns of \<open>V\<close>, with \<open>A = V diag(w) V\<^sup>T\<close>.\<close>

definition eigh_decomposes :: "eigh \<Rightarrow> mat3 \<Rightarrow> bool" where
  "eigh_decomposes np_linalg_eigh A =
     (case np_linalg_eigh A of
        (values, vectors) \<Rightarrow>
          matmul (transpose3 vectors) vectors = np_eye3 \<and>
          matmul (matmul vectors (np_diag values)) (transpose3 vectors) = A)"

definition nan33 :: fmat3 where
  "nan33 = ((NaN, NaN, NaN), (NaN, NaN, NaN), (NaN, NaN, NaN))"

text \<open>For the examples: the eigendecomposition of a matrix whose lower triangle is
  diagonal with ascending entries (\<^verbatim>\<open>eigh\<close> reads the lower triangle only): the
  eigenvalues are the diagonal and the eigenvectors the unit vectors.\<close>

definition example_eigh :: eigh where
  "example_eigh A = (case A of ((a, b, c), (d, e, f), (g, h, i)) \<Rightarrow> ((a, e, i), np_eye3))"

section \<open>Properties of the force field\<close>

lemma foldl_max_fold: "foldl max x xs = fold max xs (x::real)"
  by (induction xs arbitrary: x) (simp_all add: max.commute)

lemma foldl_max_Max: "foldl max x xs = Max (set ((x::real) # xs))"
  unfolding foldl_max_fold by (rule Max.set_eq_fold [symmetric])

lemma np_max_eq: "xs \<noteq> [] \<Longrightarrow> np_max xs = Inr (Max (set xs))"
  by (cases xs) (simp_all add: foldl_max_Max del: set_simps)

lemma np_argmax_eq: "xs \<noteq> [] \<Longrightarrow> np_argmax xs = Inr (first_index (Max (set xs)) xs)"
  by (cases xs) (simp_all add: foldl_max_Max del: set_simps first_index.simps)

lemma first_index_spec:
  "m \<in> set xs \<Longrightarrow> first_index m xs < length xs \<and> xs ! first_index m xs = m \<and> (\<forall>j < first_index m xs. xs ! j \<noteq> m)"
proof (induction xs)
  case Nil then show ?case by simp
next
  case (Cons x xs)
  show ?case
  proof (cases "x = m")
    case True then show ?thesis by simp
  next
    case False
    with Cons have "m \<in> set xs" by simp
    from Cons.IH[OF this] False show ?thesis
      by (auto simp: nth_Cons split: nat.splits)
  qed
qed

lemma compute_parts_Some: "\<exists>g'. fst (snd (compute_parts ps (Some g) v)) = Some g'"
proof (induction ps arbitrary: g v)
  case Nil
  show ?case by simp
next
  case (Cons p ps)
  obtain e g1 v1 where p: "p (Some g) v = (e, g1, v1)"
    by (cases "p (Some g) v") auto
  from Cons.IH [of g1 "write_back v v1"] obtain g' where
    "fst (snd (compute_parts ps (Some g1) (write_back v v1))) = Some g'" by blast
  then show ?case
    by (auto simp: p write_back_def split: prod.splits)
qed

lemma compute_parts_None: "fst (snd (compute_parts ps None v)) = None"
proof (induction ps arbitrary: v)
  case Nil
  show ?case by simp
next
  case (Cons p ps)
  obtain e g1 v1 where p: "p None v = (e, g1, v1)"
    by (cases "p None v") auto
  from Cons.IH [of "write_back v v1"] show ?case
    by (auto simp: p write_back_def split: prod.splits)
qed

text \<open>A gradient buffer that is given is still there after the parts have run, and one
  that is omitted stays omitted.\<close>

lemma accumulated_gpos_Some: "\<exists>g'. accumulated_gpos ff (Some g) vtens = Some g'"
  unfolding accumulated_gpos_def by (rule compute_parts_Some)

lemma accumulated_gpos_None: "accumulated_gpos ff None vtens = None"
  unfolding accumulated_gpos_def by (rule compute_parts_None)

lemma py_sum_sum_list: "py_sum es = sum_list es"
proof -
  have "foldl (+) a es = a + sum_list es" for a :: real
    by (induction es arbitrary: a) simp_all
  then show ?thesis by (simp add: py_sum_def)
qed

lemma force_norms_code:
  "map norm3 (map (scale3 ((- 1) / electronvolt u * angstrom u)) g) = force_norms u g"
  by (induction g) (auto simp: force_norms_def mult.commute)

lemma ForceField_internal_compute_Some:
  assumes acc: "accumulated_gpos ff (Some g) vtens = Some g'"
  shows "ForceField_internal_compute u ff (Some g) vtens =
     (case check_threshold (refresh_nlist ff) (map (scale3 ((- 1) / electronvolt u * angstrom u)) g') of
        Inl e \<Rightarrow> Inl e
      | Inr _ \<Rightarrow> Inr (sum_list (part_energies ff (Some g) vtens), refresh_nlist ff, Some g',
                     accumulated_vtens ff (Some g) vtens))"
proof -
  have p: "parts (refresh_nlist ff) = parts ff" by (simp add: refresh_nlist_def)
  obtain es gp vt where c: "compute_parts (parts ff) (Some g) vtens = (es, gp, vt)"
    by (cases "compute_parts (parts ff) (Some g) vtens") auto
  with acc have gp: "gp = Some g'" by (simp add: accumulated_gpos_def)
  have es: "part_energies ff (Some g) vtens = es" by (simp add: part_energies_def c)
  have vt: "accumulated_vtens ff (Some g) vtens = vt" by (simp add: accumulated_vtens_def c)
  show ?thesis
    unfolding es vt
    by (simp add: ForceField_internal_compute_def Let_def p c gp physical_forces_def
        py_sum_sum_list)
qed

lemma check_threshold_eq:
  assumes "forces \<noteq> []"
  shows "check_threshold ff forces =
     (if Max (set (map norm3 forces)) > force_threshold ff
      then Inl (ForceThresholdExceededException (Max (set (map norm3 forces)))
                 (first_index (Max (set (map norm3 forces))) (map norm3 forces)))
      else Inr ())"
  using assms by (simp add: check_threshold_def np_max_eq np_argmax_eq)

text \<open>
  Claim C1, as the code has it. For a force field whose accumulated gradient buffer has at
  least one atom (row), \<^verbatim>\<open>_internal_compute\<close> called with a gradient buffer raises
  ForceThresholdExceededException exactly when the largest Euclidean norm of the physical
  per-atom forces (minus the gradient, in eV/A) exceeds the threshold. The exception then
  carries that largest norm and the index of the first atom that attains it. Otherwise the
  call returns the sum of the energies the parts returned, in registration order, and
  leaves the accumulated buffers.
\<close>

theorem forcefield_threshold:
  assumes acc: "accumulated_gpos ff (Some g) vtens = Some g'" and ne: "g' \<noteq> []"
  shows "let norms = force_norms u g';
             M = Max (set norms);
             r = ForceField_internal_compute u ff (Some g) vtens
         in ((\<exists>m i. r = Inl (ForceThresholdExceededException m i)) \<longleftrightarrow> M > force_threshold ff)
          \<and> (M > force_threshold ff \<longrightarrow>
               (\<exists>i. r = Inl (ForceThresholdExceededException M i) \<and> i < length g' \<and>
                    norms ! i = M \<and> (\<forall>j < i. norms ! j < M)))
          \<and> (\<not> M > force_threshold ff \<longrightarrow>
               r = Inr (sum_list (part_energies ff (Some g) vtens), refresh_nlist ff, Some g',
                        accumulated_vtens ff (Some g) vtens))"
proof -
  define norms where "norms = force_norms u g'"
  define M where "M = Max (set norms)"
  define r where "r = ForceField_internal_compute u ff (Some g) vtens"
  define i where "i = first_index M norms"
  define forces where "forces = map (scale3 ((- 1) / electronvolt u * angstrom u)) g'"
  have T: "force_threshold (refresh_nlist ff) = force_threshold ff"
    by (simp add: refresh_nlist_def)
  have nne: "norms \<noteq> []" using ne by (simp add: norms_def force_norms_def)
  have len: "length norms = length g'" by (simp add: norms_def force_norms_def)
  have fne: "forces \<noteq> []" using ne by (simp add: forces_def)
  have fn: "map norm3 forces = norms"
    unfolding forces_def norms_def by (rule force_norms_code)
  have ct: "check_threshold (refresh_nlist ff) forces =
      (if M > force_threshold ff then Inl (ForceThresholdExceededException M i) else Inr ())"
    unfolding check_threshold_eq [OF fne] fn T M_def i_def ..
  have r: "r = (if M > force_threshold ff then Inl (ForceThresholdExceededException M i)
                else Inr (sum_list (part_energies ff (Some g) vtens), refresh_nlist ff, Some g',
                        accumulated_vtens ff (Some g) vtens))"
    unfolding r_def ForceField_internal_compute_Some [OF acc] forces_def [symmetric] ct
    by simp
  have "M \<in> set norms" unfolding M_def using nne by (intro Max_in) simp_all
  from first_index_spec [OF this]
  have i: "i < length g'" "norms ! i = M" "\<forall>j < i. norms ! j \<noteq> M"
    by (simp_all add: i_def len)
  have "norms ! j < M" if "j < i" for j
  proof -
    have "j < length norms" using that i(1) len by simp
    then have "norms ! j \<le> M" unfolding M_def by (intro Max_ge) simp_all
    with i(3) that show ?thesis by fastforce
  qed
  with i r show ?thesis
    unfolding Let_def norms_def [symmetric] M_def [symmetric] r_def [symmetric]
    by auto
qed

lemma sqrt_25: "sqrt 25 = 5"
  using real_sqrt_abs [of 5] by simp

lemma example_accumulated:
  "accumulated_gpos (example_ff T) (Some [(0, - (3 / 4), - 1), (0, 0, 0)]) None
     = Some [(0, 0, 0), (0, 3 / 4, 1)]"
  by (simp add: accumulated_gpos_def example_ff_def const_part_def write_back_def)

lemma example_norms:
  "force_norms example_units [(0, 0, 0), (0, 3 / 4, 1)] = [0, 5]"
  by (simp add: force_norms_def example_units_def sqrt_25)

theorem forcefield_threshold_witness:
  "ForceField_internal_compute example_units (example_ff 20) (Some [(0, - (3 / 4), - 1), (0, 0, 0)]) None
     = Inr (3, refresh_nlist (example_ff 20), Some [(0, 0, 0), (0, 3 / 4, 1)], None)
   \<and> ForceField_internal_compute example_units (example_ff 4) (Some [(0, - (3 / 4), - 1), (0, 0, 0)]) None
     = Inl (ForceThresholdExceededException 5 1)"
proof -
  have ne: "[(0, 0, 0), (0, 3 / 4, 1)] \<noteq> ([] :: rows)" by simp
  have e: "part_energies (example_ff T) (Some [(0, - (3 / 4), - 1), (0, 0, 0)]) None = [1, 2]" for T
    by (simp add: part_energies_def example_ff_def const_part_def write_back_def)
  have v: "accumulated_vtens (example_ff T) (Some [(0, - (3 / 4), - 1), (0, 0, 0)]) None = None" for T
    by (simp add: accumulated_vtens_def example_ff_def const_part_def write_back_def)
  have T: "force_threshold (example_ff T) = T" for T by (simp add: example_ff_def)
  show ?thesis
    using forcefield_threshold [OF example_accumulated [of 20] ne, where u = example_units]
          forcefield_threshold [OF example_accumulated [of 4] ne, where u = example_units]
    by (auto simp: Let_def example_norms e v T less_Suc_eq)
qed

text \<open>
  With no atoms (a gradient buffer of shape \<open>(0, 3)\<close>) the largest norm is not below or
  above anything: \<^verbatim>\<open>np.max\<close> of the empty array raises ValueError, so the call neither
  raises ForceThresholdExceededException nor returns the energy.
\<close>

theorem forcefield_no_atoms_counterexample:
  "ForceField_internal_compute example_units (example_ff 20) (Some []) None = Inl ValueError"
  by (simp add: ForceField_internal_compute_def Let_def refresh_nlist_def example_ff_def
      const_part_def write_back_def physical_forces_def check_threshold_def)

text \<open>
  Claim C6 says that the call succeeds with the gradient buffer omitted. The code does
  not: line 101 multiplies a float by \<^verbatim>\<open>gpos\<close>, and with \<^verbatim>\<open>gpos = None\<close> that raises
  TypeError, for every force field and whether or not a virial buffer is given. The
  parts have run by then.
\<close>

theorem forcefield_gpos_omitted:
  "ForceField_internal_compute u ff None vtens = Inl TypeError"
proof -
  obtain es gp vt where c: "compute_parts (parts (refresh_nlist ff)) None vtens = (es, gp, vt)"
    by (cases "compute_parts (parts (refresh_nlist ff)) None vtens") auto
  have "gp = None" using compute_parts_None [of "parts (refresh_nlist ff)" vtens] c by simp
  then show ?thesis
    by (simp add: ForceField_internal_compute_def Let_def c physical_forces_def)
qed

lemma gpos_omitted_example:
  "ForceField_internal_compute example_units (example_ff 20) None None = Inl TypeError"
  by (simp add: ForceField_internal_compute_def Let_def refresh_nlist_def example_ff_def
      const_part_def write_back_def physical_forces_def)

section \<open>Properties of the force part around an ASE calculator\<close>

lemma minus_force_code:
  "div3 (scale3 (electronvolt u) (neg3 f)) (angstrom u) = minus_force u f"
  by (cases f) (simp add: minus_force_def mult.commute)

lemma det_times_stress_code:
  "mat_scale (electronvolt u) (mat_scale (det3 c) stress) = det_times_stress u c stress"
  by (simp add: det_times_stress_def Let_def mult_ac split: prod.splits)

lemma ForcePartASE_internal_compute_eq:
  assumes cell: "rvecs sys = [r1, r2, r3]"
  shows "ForcePartASE_internal_compute u atoms sys gpos vtens =
     (case (case gpos of
              None \<Rightarrow> Inr None
            | Some g \<Rightarrow>
                (case assign_rows g (map (minus_force u)
                        (get_forces atoms (ase_positions u sys) (ase_cell u r1 r2 r3))) of
                   Inl e \<Rightarrow> Inl e
                 | Inr g' \<Rightarrow> Inr (Some g'))) of
        Inl e \<Rightarrow> Inl e
      | Inr gpos' \<Rightarrow>
          Inr (get_potential_energy atoms (ase_positions u sys) (ase_cell u r1 r2 r3) * electronvolt u,
               gpos',
               map_option (\<lambda>_. det_times_stress u (ase_cell u r1 r2 r3)
                   (get_stress atoms (ase_positions u sys) (ase_cell u r1 r2 r3))) vtens))"
  by (simp add: ForcePartASE_internal_compute_def Let_def cell ase_positions_def ase_cell_def
      minus_force_code det_times_stress_code map_option_case
      split: option.splits sum.splits)

text \<open>What the call leaves in the buffers, for a system with three lattice vectors and
  a calculator whose forces have the shape of the gradient buffer.\<close>

lemma ForcePartASE_buffers:
  assumes cell: "rvecs sys = [r1, r2, r3]"
    and shape: "\<forall>g. gpos = Some g \<longrightarrow>
        length (get_forces atoms (ase_positions u sys) (ase_cell u r1 r2 r3)) = length g"
  shows "ForcePartASE_internal_compute u atoms sys gpos vtens =
     Inr (get_potential_energy atoms (ase_positions u sys) (ase_cell u r1 r2 r3) * electronvolt u,
          map_option (\<lambda>_. map (minus_force u)
              (get_forces atoms (ase_positions u sys) (ase_cell u r1 r2 r3))) gpos,
          map_option (\<lambda>_. det_times_stress u (ase_cell u r1 r2 r3)
              (get_stress atoms (ase_positions u sys) (ase_cell u r1 r2 r3))) vtens)"
  using shape
  by (cases gpos) (simp_all add: ForcePartASE_internal_compute_eq [OF cell] assign_rows_def)




text \<open>For a cell whose determinant is not negative the code's virial is the volume
  times the stress; for a cell whose determinant is negative it is minus that.\<close>

lemma det_times_stress_right_handed:
  "0 \<le> det3 c \<Longrightarrow> det_times_stress u c stress = volume_times_stress u c stress"
  by (simp add: det_times_stress_def volume_times_stress_def cell_volume_def)

lemma det_times_stress_left_handed:
  "det3 c < 0 \<Longrightarrow> det_times_stress u c stress = mat_scale (- 1) (volume_times_stress u c stress)"
  by (simp add: det_times_stress_def volume_times_stress_def cell_volume_def Let_def
      split: prod.splits)

text \<open>
  Claim C3 says that a virial buffer is filled with the cell volume times the stress. The
  code takes \<^verbatim>\<open>np.linalg.det\<close> of the cell for the volume, which is negative for a
  left-handed cell. For the cell with the lattice vectors \<open>(0, 2, 0)\<close>, \<open>(2, 0, 0)\<close>,
  \<open>(0, 0, 3)\<close> (in angstrom), of volume 12, the buffer holds \<open>- 12\<close> times the stress,
  converted, where the claim has 12 times the stress. The energy and the sign of the
  gradient are as the claim says.
\<close>

theorem ase_part_left_handed_cell:
  "ForcePartASE_internal_compute example_units example_calculator left_handed_system
     (Some [(7, 7, 7), (8, 8, 8)]) (Some ((1, 1, 1), (1, 1, 1), (1, 1, 1))) =
   Inr (3 / 2, Some [(- (1 / 4), 0, 0), (0, 1 / 2, - 1)],
        Some ((- 6, - 12, - 18), (- 12, - 24, - 30), (- 18, - 30, - 36)))
   \<and> cell_volume ((0, 2, 0), (2, 0, 0), (0, 0, 3)) = 12
   \<and> volume_times_stress example_units ((0, 2, 0), (2, 0, 0), (0, 0, 3))
        ((1, 2, 3), (2, 4, 5), (3, 5, 6)) =
       ((6, 12, 18), (12, 24, 30), (18, 30, 36))"
  by (simp add: ForcePartASE_internal_compute_def Let_def left_handed_system_def
      example_units_def example_calculator_def assign_rows_def cell_volume_def
      volume_times_stress_def)

section \<open>Properties of the bias force part\<close>

lemma cmds_append:
  "cmds p h (xs @ ys) = (case cmds p h xs of Inl e \<Rightarrow> Inl e | Inr h' \<Rightarrow> cmds p h' ys)"
  by (induction xs arbitrary: h) (simp_all split: sum.splits)

lemma cmds_history: "cmds p h cs = Inr h' \<Longrightarrow> h' = h @ cs"
proof (induction cs arbitrary: h)
  case Nil
  then show ?case by simp
next
  case (Cons c cs)
  from Cons.prems obtain h1 where c: "cmd p h c = Inr h1" and r: "cmds p h1 cs = Inr h'"
    by (auto split: sum.splits)
  from c have "h1 = h @ [c]" by (auto simp: cmd_def split: option.splits)
  with Cons.IH [OF r] show ?case by simp
qed

lemma cmds_never_raises:
  assumes "\<forall>h c. plumed_raises p h c = None"
  shows "cmds p h cs = Inr (h @ cs)"
  using assms by (induction cs arbitrary: h) (simp_all add: cmd_def)

lemma cmd_erase:
  assumes "buffer_blind p"
  shows "cmd p (map erase h) (erase c) = map_sum id (map erase) (cmd p h c)"
proof -
  from assms have "plumed_raises p h c = plumed_raises p (map erase h) (erase c)"
    unfolding buffer_blind_def by blast
  then show ?thesis by (simp add: cmd_def split: option.splits)
qed

lemma cmds_erase:
  assumes "buffer_blind p"
  shows "cmds p (map erase h) (map erase cs) = map_sum id (map erase) (cmds p h cs)"
proof (induction cs arbitrary: h)
  case Nil
  show ?case by simp
next
  case (Cons c cs)
  show ?case
  proof (cases "cmd p h c")
    case (Inl e)
    with cmd_erase [OF assms, of h c] show ?thesis by simp
  next
    case (Inr h1)
    with cmd_erase [OF assms, of h c] Cons.IH [of h1] show ?thesis by simp
  qed
qed

lemma erase_system_cmds: "map erase (system_cmds plumedstep sys) = system_cmds plumedstep sys"
  by (simp add: system_cmds_def split: option.splits)

lemma erase_handed:
  "map erase [SetForces f, SetVirial v, PrepareCalc, PerformCalcNoUpdate] =
     [SetForces (replicate (length f) zeros3), SetVirial zeros33, PrepareCalc, PerformCalcNoUpdate]"
  by simp

text \<open>The energy of a call, or the exception it ends with.\<close>

lemma plumed_energy:
  "map_sum id fst (ForcePartPlumed_internal_compute p h plumedstep sys gpos vtens) =
     (case cmds p h (system_cmds plumedstep sys
                     @ [SetForces (my_gpos sys gpos), SetVirial (my_vtens vtens),
                        PrepareCalc, PerformCalcNoUpdate]) of
        Inl e \<Rightarrow> Inl e
      | Inr h1 \<Rightarrow> (case cmd p h1 GetBias of Inl e \<Rightarrow> Inl e | Inr h2 \<Rightarrow> Inr (plumed_bias p h2)))"
  by (simp add: ForcePartPlumed_internal_compute_def Let_def split: sum.splits prod.splits)

lemma blind_energy:
  assumes blind: "buffer_blind p" and same: "map erase cs = map erase cs'"
  shows "(case cmds p h cs of
            Inl e \<Rightarrow> Inl e
          | Inr h1 \<Rightarrow> (case cmd p h1 GetBias of Inl e \<Rightarrow> Inl e | Inr h2 \<Rightarrow> Inr (plumed_bias p h2)))
       = (case cmds p h cs' of
            Inl e \<Rightarrow> Inl e
          | Inr h1 \<Rightarrow> (case cmd p h1 GetBias of Inl e \<Rightarrow> Inl e | Inr h2 \<Rightarrow> Inr (plumed_bias p h2)))"
proof -
  have eq: "map_sum id (map erase) (cmds p h cs) = map_sum id (map erase) (cmds p h cs')"
    using cmds_erase [OF blind, of h cs] cmds_erase [OF blind, of h cs'] same by simp
  have tail: "(case cmd p h1 GetBias of Inl e \<Rightarrow> Inl e | Inr h2 \<Rightarrow> Inr (plumed_bias p h2))
            = (case cmd p h1' GetBias of Inl e \<Rightarrow> Inl e | Inr h2 \<Rightarrow> Inr (plumed_bias p h2))"
    if e: "map erase h1 = map erase h1'" for h1 h1'
  proof -
    from blind have r: "plumed_raises p k GetBias = plumed_raises p (map erase k) GetBias" for k
      unfolding buffer_blind_def by (metis erase.simps(10))
    from blind have b: "plumed_bias p k = plumed_bias p (map erase k)" for k
      unfolding buffer_blind_def by blast
    have "plumed_raises p h1 GetBias = plumed_raises p h1' GetBias"
      using r [of h1] r [of h1'] e by simp
    moreover have "plumed_bias p (h1 @ [GetBias]) = plumed_bias p (h1' @ [GetBias])"
      using b [of "h1 @ [GetBias]"] b [of "h1' @ [GetBias]"] e by simp
    ultimately show ?thesis by (simp add: cmd_def split: option.splits)
  qed
  show ?thesis
  proof (cases "cmds p h cs")
    case (Inl e)
    with eq have "cmds p h cs' = Inl e" by (cases "cmds p h cs'") simp_all
    with Inl show ?thesis by simp
  next
    case (Inr h1)
    with eq obtain h1' where r: "cmds p h cs' = Inr h1'" and e: "map erase h1 = map erase h1'"
      by (cases "cmds p h cs'") simp_all
    from tail [OF e] Inr r show ?thesis by simp
  qed
qed

text \<open>
  Claim C7. Take an engine whose bias and whose exceptions do not depend on what the
  handed buffers hold, and a caller's gradient buffer of the positions' shape. A call with
  both buffers omitted that returns has told the engine about the system and has handed
  it an array of zeros of the positions' shape for the forces and a \<open>3\<times>3\<close> array of zeros
  for the virial, before asking for the calculation and the bias; both buffers stay
  omitted. The call ends as the call on the same engine, step and system with both
  buffers supplied ends: with the same bias energy, or with the same exception of the
  engine. The code raises nothing of its own: on an engine that never raises, the call
  with both buffers omitted returns.
\<close>

theorem plumed_part_buffers_omitted:
  assumes blind: "buffer_blind p" and shape: "length g = length (pos sys)"
  shows "(\<forall>E gp vt h'.
            ForcePartPlumed_internal_compute p h plumedstep sys None None = Inr (E, gp, vt, h') \<longrightarrow>
              gp = None \<and> vt = None \<and> E = plumed_bias p h' \<and>
              h' = h @ [SetStep plumedstep, SetPositions (pos sys), SetMasses (masses sys)]
                     @ (case charges sys of None \<Rightarrow> [] | Some q \<Rightarrow> [SetCharges q])
                     @ (if length (rvecs sys) > 0 then [SetBox (rvecs sys)] else [])
                     @ [SetForces (replicate (length (pos sys)) (0, 0, 0)),
                        SetVirial ((0, 0, 0), (0, 0, 0), (0, 0, 0)),
                        PrepareCalc, PerformCalcNoUpdate, GetBias])
       \<and> map_sum id fst (ForcePartPlumed_internal_compute p h plumedstep sys None None) =
         map_sum id fst (ForcePartPlumed_internal_compute p h plumedstep sys (Some g) (Some v))
       \<and> ((\<forall>h c. plumed_raises p h c = None) \<longrightarrow>
            (\<exists>E h'. ForcePartPlumed_internal_compute p h plumedstep sys None None
                       = Inr (E, None, None, h')))"
proof (intro conjI allI impI)
  fix E gp vt h'
  assume r: "ForcePartPlumed_internal_compute p h plumedstep sys None None = Inr (E, gp, vt, h')"
  let ?cs = "system_cmds plumedstep sys
             @ [SetForces (my_gpos sys None), SetVirial (my_vtens None),
                PrepareCalc, PerformCalcNoUpdate]"
  from r obtain h1 where h1: "cmds p h ?cs = Inr h1" and g: "cmd p h1 GetBias = Inr h'"
    and res: "gp = None" "vt = None" "E = plumed_bias p h'"
    by (auto simp: ForcePartPlumed_internal_compute_def Let_def split: sum.splits prod.splits)
  from g have "h' = h1 @ [GetBias]" by (auto simp: cmd_def split: option.splits)
  with cmds_history [OF h1] have "h' = h @ ?cs @ [GetBias]" by simp
  then have h': "h' = h @ [SetStep plumedstep, SetPositions (pos sys), SetMasses (masses sys)]
                     @ (case charges sys of None \<Rightarrow> [] | Some q \<Rightarrow> [SetCharges q])
                     @ (if length (rvecs sys) > 0 then [SetBox (rvecs sys)] else [])
                     @ [SetForces (replicate (length (pos sys)) (0, 0, 0)),
                        SetVirial ((0, 0, 0), (0, 0, 0), (0, 0, 0)),
                        PrepareCalc, PerformCalcNoUpdate, GetBias]"
    by (simp add: system_cmds_def my_gpos_def my_vtens_def zeros3_def zeros33_def)
  from res h' show "gp = None" "vt = None" "E = plumed_bias p h'"
    "h' = h @ [SetStep plumedstep, SetPositions (pos sys), SetMasses (masses sys)]
                     @ (case charges sys of None \<Rightarrow> [] | Some q \<Rightarrow> [SetCharges q])
                     @ (if length (rvecs sys) > 0 then [SetBox (rvecs sys)] else [])
                     @ [SetForces (replicate (length (pos sys)) (0, 0, 0)),
                        SetVirial ((0, 0, 0), (0, 0, 0), (0, 0, 0)),
                        PrepareCalc, PerformCalcNoUpdate, GetBias]"
    by simp_all
next
  have "map erase (system_cmds plumedstep sys
             @ [SetForces (my_gpos sys None), SetVirial (my_vtens None),
                PrepareCalc, PerformCalcNoUpdate])
      = map erase (system_cmds plumedstep sys
             @ [SetForces (my_gpos sys (Some g)), SetVirial (my_vtens (Some v)),
                PrepareCalc, PerformCalcNoUpdate])"
    using shape by (simp add: my_gpos_def)
  from blind_energy [OF blind this]
  show "map_sum id fst (ForcePartPlumed_internal_compute p h plumedstep sys None None) =
        map_sum id fst (ForcePartPlumed_internal_compute p h plumedstep sys (Some g) (Some v))"
    unfolding plumed_energy .
next
  assume never: "\<forall>h c. plumed_raises p h c = None"
  then have "cmd p k GetBias = Inr (k @ [GetBias])" for k by (simp add: cmd_def)
  then show "\<exists>E h'. ForcePartPlumed_internal_compute p h plumedstep sys None None
                       = Inr (E, None, None, h')"
    by (simp add: ForcePartPlumed_internal_compute_def Let_def cmds_never_raises [OF never]
        split: prod.splits)
qed

lemma latest_positions_erase: "latest_positions (map erase h) = latest_positions h"
proof -
  have "foldl (\<lambda>acc c. case c of SetPositions x \<Rightarrow> x | _ \<Rightarrow> acc) a (map erase h)
      = foldl (\<lambda>acc c. case c of SetPositions x \<Rightarrow> x | _ \<Rightarrow> acc) a h" for a
  proof (induction h arbitrary: a)
    case Nil
    show ?case by simp
  next
    case (Cons c h)
    show ?case by (cases c) (simp_all add: Cons.IH)
  qed
  then show ?thesis by (simp add: latest_positions_def)
qed

lemma example_plumed_blind: "buffer_blind example_plumed"
proof -
  have "plumed_raises example_plumed h c = plumed_raises example_plumed (map erase h) (erase c)"
    for h c
    by (cases c) (simp_all add: example_plumed_def)
  moreover have "plumed_bias example_plumed h = plumed_bias example_plumed (map erase h)" for h
    by (simp add: example_plumed_def latest_positions_erase)
  ultimately show ?thesis unfolding buffer_blind_def by blast
qed

theorem plumed_part_buffers_omitted_witness:
  "ForcePartPlumed_internal_compute example_plumed [] 7 example_system None None =
     Inr (2, None, None,
          [SetStep 7, SetPositions [(0, 0, 0), (2, 0, 0)], SetMasses (Some [1, 1]),
           SetBox [(4, 0, 0), (0, 4, 0), (0, 0, 6)],
           SetForces [(0, 0, 0), (0, 0, 0)], SetVirial ((0, 0, 0), (0, 0, 0), (0, 0, 0)),
           PrepareCalc, PerformCalcNoUpdate, GetBias])
   \<and> map_sum id fst (ForcePartPlumed_internal_compute example_plumed [] 7 example_system
        (Some [(1, 1, 1), (1, 1, 1)]) (Some ((5, 0, 0), (0, 5, 0), (0, 0, 5)))) = Inr 2"
proof -
  have shape: "length [(1, 1, 1), (1, 1, 1) :: vec3] = length (pos example_system)"
    by (simp add: example_system_def)
  have none: "ForcePartPlumed_internal_compute example_plumed [] 7 example_system None None =
     Inr (2, None, None,
          [SetStep 7, SetPositions [(0, 0, 0), (2, 0, 0)], SetMasses (Some [1, 1]),
           SetBox [(4, 0, 0), (0, 4, 0), (0, 0, 6)],
           SetForces [(0, 0, 0), (0, 0, 0)], SetVirial ((0, 0, 0), (0, 0, 0), (0, 0, 0)),
           PrepareCalc, PerformCalcNoUpdate, GetBias])"
    by (simp add: ForcePartPlumed_internal_compute_def Let_def system_cmds_def my_gpos_def
        my_vtens_def cmd_def example_plumed_def example_system_def latest_positions_def
        zeros3_def zeros33_def)
  from plumed_part_buffers_omitted [OF example_plumed_blind shape,
      of "[]" 7 "((5, 0, 0), (0, 5, 0), (0, 0, 5))"]
  have "map_sum id fst (ForcePartPlumed_internal_compute example_plumed [] 7 example_system None None) =
        map_sum id fst (ForcePartPlumed_internal_compute example_plumed [] 7 example_system
          (Some [(1, 1, 1), (1, 1, 1)]) (Some ((5, 0, 0), (0, 5, 0), (0, 0, 5))))"
    by blast
  with none show ?thesis by simp
qed

text \<open>An engine may raise: the example engine does when the system has no masses, and
  the call then ends with the engine's exception.\<close>

lemma plumed_part_engine_raises:
  "ForcePartPlumed_internal_compute example_plumed [] 7 (example_system\<lparr>masses := None\<rparr>) None None
     = Inl TypeError"
  by (simp add: ForcePartPlumed_internal_compute_def system_cmds_def cmd_def example_plumed_def
      example_system_def)

section \<open>Properties of the trajectory hook\<close>

text \<open>
  Claim C8, as the code has it. The hook writes nothing when it is called at iteration
  0 and appends one frame, holding the current positions and box (in angstrom), when it
  is called at any later iteration. So for a schedule with \<open>start = 0\<close> and \<open>step \<ge> 1\<close>
  the first scheduled call writes nothing and every later one appends one frame; for a
  schedule with \<open>start \<ge> 1\<close> every scheduled call appends one frame, the first one too.
\<close>

theorem xyz_hook_call_writes:
  assumes init: "hook_atoms h = Some a"
    and step: "1 \<le> step'"
    and sched: "counter it = scheduled_counter start' step' k"
  shows "ExtXYZHook_call u h it =
     (if start' = 0 \<and> k = 0 then Inr h
      else Inr (h\<lparr>hook_atoms := Some (current_frame u a it),
                  path_xyz := path_xyz h @ [current_frame u a it]\<rparr>))"
proof -
  have c: "counter it > 0 \<longleftrightarrow> \<not> (start' = 0 \<and> k = 0)"
    using step by (auto simp: sched scheduled_counter_def)
  have f: "a\<lparr>a_positions := map (\<lambda>p. div3 p (angstrom u)) (pos (it_system it)),
             a_cell := map (\<lambda>r. div3 r (angstrom u)) (rvecs (it_system it))\<rparr> =
           current_frame u a it"
    by (simp add: current_frame_def)
  show ?thesis
    unfolding ExtXYZHook_call_def c init
    by (simp add: Let_def f)
qed

lemma example_hook_atoms:
  "hook_atoms (example_hook s t) =
     Some \<lparr>a_numbers = [1, 1], a_positions = [(0, 0, 0), (1, 0, 0)],
           a_cell = [(2, 0, 0), (0, 2, 0), (0, 0, 3)], a_pbc = True\<rparr>"
  by (simp add: example_hook_def ExtXYZHook_init_def example_iterative_def example_system_def
      example_units_def)

theorem xyz_hook_call_writes_witness:
  "ExtXYZHook_call example_units (example_hook 0 2) (example_iterative 0) = Inr (example_hook 0 2)
   \<and> ExtXYZHook_call example_units (example_hook 0 2) (example_iterative 2) =
       Inr ((example_hook 0 2)
         \<lparr>path_xyz := [\<lparr>a_numbers = [1, 1], a_positions = [(0, 0, 0), (1, 0, 0)],
                        a_cell = [(2, 0, 0), (0, 2, 0), (0, 0, 3)], a_pbc = True\<rparr>]\<rparr>)"
proof -
  have s: "(1::nat) \<le> 2" by simp
  have c0: "counter (example_iterative 0) = scheduled_counter 0 2 0"
    by (simp add: example_iterative_def scheduled_counter_def)
  have c1: "counter (example_iterative 2) = scheduled_counter 0 2 1"
    by (simp add: example_iterative_def scheduled_counter_def)
  show ?thesis
    using xyz_hook_call_writes [OF example_hook_atoms [of 0 2] s c0, of example_units]
          xyz_hook_call_writes [OF example_hook_atoms [of 0 2] s c1, of example_units]
    by (simp add: current_frame_def example_hook_def ExtXYZHook_init_def example_iterative_def
        example_system_def example_units_def)
qed

text \<open>
  Claim C8 as stated fails for a schedule that starts later than iteration 0: with
  \<open>start = 1\<close> and \<open>step = 1\<close> the first scheduled call is at iteration 1, and it appends
  a frame to the (empty) file.
\<close>

theorem xyz_hook_first_call_counterexample:
  "scheduled_counter 1 1 0 = 1
   \<and> ExtXYZHook_call example_units (example_hook 1 1) (example_iterative 1) =
       Inr ((example_hook 1 1)
         \<lparr>path_xyz := [\<lparr>a_numbers = [1, 1], a_positions = [(0, 0, 0), (1, 0, 0)],
                        a_cell = [(2, 0, 0), (0, 2, 0), (0, 0, 3)], a_pbc = True\<rparr>]\<rparr>)"
  by (simp add: scheduled_counter_def ExtXYZHook_call_def example_hook_def ExtXYZHook_init_def
      example_iterative_def example_system_def example_units_def Let_def)

section \<open>Properties of the parser\<close>

lemma scan_lines_no_keyword:
  "list_all (\<lambda>l. \<not> contains ''VERLET'' l) ls \<Longrightarrow> scan_lines ls = Inr 0"
  by (induction ls) simp_all

lemma parse_yaff_output_no_keyword:
  assumes "list_all (\<lambda>l. \<not> contains ''VERLET'' l) (split_lines stdout)"
  shows "parse_yaff_output stdout =
     Inr (if contains ''unsafe'' stdout then ''unsafe'' else ''safe'', 0)"
proof -
  have "list_all (\<lambda>l. \<not> contains ''VERLET'' l) (rev (split_lines stdout))"
    using assms by (simp add: list_all_iff)
  then show ?thesis
    by (simp add: parse_yaff_output_def scan_lines_no_keyword)
qed

lemma scan_lines_skips:
  assumes "list_all (\<lambda>l. \<not> contains ''VERLET'' l \<or> \<not> list_all py_float_ok (tl (py_split l))) pre"
  shows "scan_lines (pre @ ls) = scan_lines ls"
  using assms by (induction pre) auto

lemma scan_lines_first_candidate:
  assumes skipped: "list_all (\<lambda>l. \<not> contains ''VERLET'' l \<or> \<not> list_all py_float_ok (tl (py_split l))) pre"
    and keyword: "contains ''VERLET'' line"
    and tokens: "py_split line = w # t # ts"
    and floats: "list_all py_float_ok (t # ts)"
    and second: "py_int t = Some n"
  shows "scan_lines (pre @ line # post) = Inr n"
  using keyword tokens floats second by (simp add: scan_lines_skips [OF skipped])

lemma parse_yaff_output_example:
  "parse_yaff_output (''VERLET    120   1.5 2.0'' @ [CHR 0x0A] @ ''unsafe configuration'') =
     Inr (''unsafe'', 120)"
  by code_simp

text \<open>
  Claim C4 says that a malformed candidate line, for instance one with missing tokens,
  is skipped without an error. The code raises instead: a line that holds the keyword
  and nothing else has no second token, so \<^verbatim>\<open>line.split()[1]\<close> raises IndexError; and a
  line whose second token \<^verbatim>\<open>float\<close> accepts and \<^verbatim>\<open>int\<close> does not (here \<^verbatim>\<open>1.5\<close>) raises
  ValueError after the \<^verbatim>\<open>try\<close>, although the line before it is a well-formed candidate.
\<close>

theorem parse_yaff_output_malformed_line:
  "parse_yaff_output ''VERLET'' = Inl IndexError
   \<and> parse_yaff_output (''VERLET 12 0.5'' @ [CHR 0x0A] @ ''VERLET 1.5 2.0'') = Inl ValueError"
  by code_simp

section \<open>Properties of strain and box\<close>

lemma fadd_NaN [simp]: "fadd NaN x = NaN" "fadd x NaN = NaN"
  by (cases x; simp)+

lemma fmul_NaN [simp]: "fmul NaN x = NaN" "fmul x NaN = NaN"
  by (cases x; simp)+

lemma mat3_cases:
  obtains a b c d e f g h i where "m = ((a, b, c), (d, e, f), (g, h, i))"
  by (cases m) auto

lemma nan_spreads:
  assumes "a = NaN \<or> b = NaN \<or> c = NaN"
  shows "fmatmul B (fmatmul (fmatmul V ((a, Num 0, Num 0), (Num 0, b, Num 0), (Num 0, Num 0, c))) W)
         = nan33"
proof -
  obtain v1 v2 v3 v4 v5 v6 v7 v8 v9 where V: "V = ((v1, v2, v3), (v4, v5, v6), (v7, v8, v9))"
    by (rule mat3_cases)
  obtain w1 w2 w3 w4 w5 w6 w7 w8 w9 where W: "W = ((w1, w2, w3), (w4, w5, w6), (w7, w8, w9))"
    by (rule mat3_cases)
  obtain b1 b2 b3 b4 b5 b6 b7 b8 b9 where B: "B = ((b1, b2, b3), (b4, b5, b6), (b7, b8, b9))"
    by (rule mat3_cases)
  from assms show ?thesis
    unfolding V W B nan33_def by (elim disjE) simp_all
qed

lemma sqrt_diag:
  "map_mat np_sqrt (np_diag (l1, l2, l3)) =
     ((np_sqrt l1, Num 0, Num 0), (Num 0, np_sqrt l2, Num 0), (Num 0, Num 0, np_sqrt l3))"
  by (simp add: np_sqrt_def)

lemma apply_strain_eq:
  assumes "np_linalg_eigh (mat_add (mat_scale 2 s) np_eye3) = (values, vectors)"
  shows "apply_strain np_linalg_eigh s box0 =
     (if \<not> np_allclose s (transpose3 s) then Inl AssertionError
      else Inr (fmatmul (map_mat Num box0)
                  (fmatmul (fmatmul (map_mat Num vectors) (map_mat np_sqrt (np_diag values)))
                           (map_mat Num (transpose3 vectors)))))"
  by (simp add: apply_strain_def Let_def assms)

lemma apply_strain_nan:
  assumes sym: "np_allclose s (transpose3 s)"
    and eig: "np_linalg_eigh (mat_add (mat_scale 2 s) np_eye3) = ((l1, l2, l3), vectors)"
    and neg: "l1 < 0 \<or> l2 < 0 \<or> l3 < 0"
  shows "apply_strain np_linalg_eigh s box0 = Inr nan33"
proof -
  have "np_sqrt l1 = NaN \<or> np_sqrt l2 = NaN \<or> np_sqrt l3 = NaN"
    using neg by (auto simp: np_sqrt_def)
  then show ?thesis
    unfolding apply_strain_eq [of np_linalg_eigh s "(l1, l2, l3)" vectors, OF eig] sqrt_diag
    by (simp add: sym nan_spreads)
qed

text \<open>
  Claim C5 as stated fails: the symmetric strain with the single entry \<open>-1\<close> gives
  \<open>2 s + I\<close> the diagonal \<open>-1, 1, 1\<close>, so \<open>-1\<close> is an eigenvalue, and the call returns a
  box of NaN instead of an error.
\<close>

theorem apply_strain_no_error_counterexample:
  "symmetric ((- 1, 0, 0), (0, 0, 0), (0, 0, 0))
   \<and> mat_add (mat_scale 2 ((- 1, 0, 0), (0, 0, 0), (0, 0, 0))) np_eye3 = np_diag (- 1, 1, 1)
   \<and> apply_strain example_eigh ((- 1, 0, 0), (0, 0, 0), (0, 0, 0)) np_eye3 = Inr nan33"
  by (simp add: symmetric_def np_eye3_def apply_strain_def np_allclose_def close_to_def
      example_eigh_def Let_def np_sqrt_def nan33_def)

lemma det3_matmul: "det3 (matmul m n) = det3 m * det3 n"
proof -
  obtain a b c d e f g h i where m: "m = ((a, b, c), (d, e, f), (g, h, i))"
    by (rule mat3_cases)
  obtain p q r s t u v w x where n: "n = ((p, q, r), (s, t, u), (v, w, x))"
    by (rule mat3_cases)
  show ?thesis unfolding m n by (simp add: algebra_simps)
qed

lemma det3_eye: "det3 np_eye3 = 1"
  by (simp add: np_eye3_def)

lemma matmul_adjugate:
  assumes "det3 m \<noteq> 0"
  shows "matmul m (mat_scale (1 / det3 m) (adjugate m)) = np_eye3"
    and "matmul (mat_scale (1 / det3 m) (adjugate m)) m = np_eye3"
proof -
  obtain a b c d e f g h i where m: "m = ((a, b, c), (d, e, f), (g, h, i))"
    by (rule mat3_cases)
  define D where "D = det3 m"
  have D: "D \<noteq> 0" using assms by (simp add: D_def)
  have e: "a * (e * i - f * h) - b * (d * i - f * g) + c * (d * h - e * g) = D"
    by (simp add: D_def m)
  have k: "x / D = y \<longleftrightarrow> x = y * D" for x y using D by (simp add: field_simps)
  show "matmul m (mat_scale (1 / det3 m) (adjugate m)) = np_eye3"
    unfolding D_def [symmetric] unfolding m np_eye3_def
    using D by (simp add: add_divide_distrib [symmetric] diff_divide_distrib [symmetric] k)
      (simp add: e [symmetric] algebra_simps)
  show "matmul (mat_scale (1 / det3 m) (adjugate m)) m = np_eye3"
    unfolding D_def [symmetric] unfolding m np_eye3_def
    using D by (simp add: add_divide_distrib [symmetric] diff_divide_distrib [symmetric] k)
      (simp add: e [symmetric] algebra_simps)
qed

lemma invertible_iff_det: "invertible m \<longleftrightarrow> det3 m \<noteq> 0"
proof
  assume "invertible m"
  then obtain n where "matmul m n = np_eye3" by (auto simp: invertible_def)
  then have "det3 m * det3 n = 1" using det3_matmul [of m n] by (simp add: det3_eye)
  then show "det3 m \<noteq> 0" by auto
next
  assume "det3 m \<noteq> 0"
  then show "invertible m"
    unfolding invertible_def using matmul_adjugate by blast
qed

lemma symmetric_allclose: "symmetric s \<Longrightarrow> np_allclose s (transpose3 s)"
proof -
  assume "symmetric s"
  then have t: "transpose3 s = s" by (simp add: symmetric_def)
  obtain a b c d e f g h i where s: "s = ((a, b, c), (d, e, f), (g, h, i))"
    by (rule mat3_cases)
  show ?thesis unfolding t unfolding s by (simp add: np_allclose_def close_to_def)
qed





text \<open>A reference box without an inverse need not fail: the rows of the matrix below add
  up to 0 with the coefficients 2, 1 and 1, and where rounding leaves no zero pivot
  \<^verbatim>\<open>compute_strain\<close> returns a strain.\<close>

lemma compute_strain_singular_returns:
  "\<not> invertible ((7, - 8, 3), (- 2, 4, - 3), (- 12, 12, - 3))
   \<and> \<not> isl (compute_strain tiny_pivot (map_mat Num np_eye3)
                ((7, - 8, 3), (- 2, 4, - 3), (- 12, 12, - 3)))"
  by (simp add: invertible_iff_det compute_strain_def np_linalg_inv_def tiny_pivot_def)


lemma fmatmul_Num: "fmatmul (map_mat Num X) (map_mat Num Y) = map_mat Num (matmul X Y)"
proof -
  obtain a b c d e f g h i where X: "X = ((a, b, c), (d, e, f), (g, h, i))"
    by (rule mat3_cases)
  obtain p q r s t u v w x where Y: "Y = ((p, q, r), (s, t, u), (v, w, x))"
    by (rule mat3_cases)
  show ?thesis unfolding X Y by simp
qed

lemma transpose3_Num: "transpose3 (map_mat Num X) = map_mat Num (transpose3 X)"
proof -
  obtain a b c d e f g h i where X: "X = ((a, b, c), (d, e, f), (g, h, i))"
    by (rule mat3_cases)
  show ?thesis unfolding X by simp
qed

lemma matmul_assoc: "matmul (matmul X Y) Z = matmul X (matmul Y Z)"
proof -
  obtain a b c d e f g h i where X: "X = ((a, b, c), (d, e, f), (g, h, i))"
    by (rule mat3_cases)
  obtain p q r s t u v w x where Y: "Y = ((p, q, r), (s, t, u), (v, w, x))"
    by (rule mat3_cases)
  obtain a' b' c' d' e' f' g' h' i' where Z: "Z = ((a', b', c'), (d', e', f'), (g', h', i'))"
    by (rule mat3_cases)
  show ?thesis unfolding X Y Z by (simp add: algebra_simps)
qed

lemma transpose3_matmul: "transpose3 (matmul X Y) = matmul (transpose3 Y) (transpose3 X)"
proof -
  obtain a b c d e f g h i where X: "X = ((a, b, c), (d, e, f), (g, h, i))"
    by (rule mat3_cases)
  obtain p q r s t u v w x where Y: "Y = ((p, q, r), (s, t, u), (v, w, x))"
    by (rule mat3_cases)
  show ?thesis unfolding X Y by (simp add: algebra_simps)
qed

lemma transpose3_transpose3: "transpose3 (transpose3 X) = X"
proof -
  obtain a b c d e f g h i where X: "X = ((a, b, c), (d, e, f), (g, h, i))"
    by (rule mat3_cases)
  show ?thesis unfolding X by simp
qed

lemma matmul_eye: "matmul np_eye3 (X :: mat3) = X" "matmul X np_eye3 = X"
proof -
  obtain a b c d e f g h i where X: "X = ((a, b, c), (d, e, f), (g, h, i))"
    by (rule mat3_cases)
  show "matmul np_eye3 X = X" "matmul X np_eye3 = X"
    unfolding X np_eye3_def by simp_all
qed

lemma transpose3_eye: "transpose3 np_eye3 = np_eye3"
  by (simp add: np_eye3_def)

lemma transpose3_diag: "transpose3 (np_diag w) = np_diag w"
  by (cases w) simp

lemma sqrt_diag_Num:
  assumes "0 \<le> l1" "0 \<le> l2" "0 \<le> l3"
  shows "map_mat np_sqrt (np_diag (l1, l2, l3)) = map_mat Num (np_diag (sqrt l1, sqrt l2, sqrt l3))"
  using assms by (simp add: np_sqrt_def)

lemma sqrt_diag_square:
  assumes "0 \<le> l1" "0 \<le> l2" "0 \<le> l3"
  shows "matmul (np_diag (sqrt l1, sqrt l2, sqrt l3)) (np_diag (sqrt l1, sqrt l2, sqrt l3))
         = np_diag (l1, l2, l3)"
  using assms by simp

text \<open>The eigenvalues of a decomposed positive-definite matrix are positive.\<close>

lemma quadratic_form_decomposed:
  "dot3 x (matvec (matmul (matmul V (np_diag (l1, l2, l3))) (transpose3 V)) x) =
     l1 * (dot3 (fst (transpose3 V)) x)\<^sup>2
   + l2 * (dot3 (fst (snd (transpose3 V))) x)\<^sup>2
   + l3 * (dot3 (snd (snd (transpose3 V))) x)\<^sup>2"
proof -
  obtain a b c d e f g h i where V: "V = ((a, b, c), (d, e, f), (g, h, i))"
    by (rule mat3_cases)
  obtain p q r where x: "x = (p, q, r)" by (cases x) auto
  show ?thesis unfolding V x by (simp add: power2_eq_square algebra_simps)
qed

lemma eigenvalues_positive:
  assumes orth: "matmul (transpose3 V) V = np_eye3"
    and dec: "matmul (matmul V (np_diag (l1, l2, l3))) (transpose3 V) = A"
    and pd: "positive_definite A"
  shows "0 < l1 \<and> 0 < l2 \<and> 0 < l3"
proof -
  obtain a b c d e f g h i where V: "V = ((a, b, c), (d, e, f), (g, h, i))"
    by (rule mat3_cases)
  from orth have o:
    "a * a + d * d + g * g = 1" "a * b + d * e + g * h = 0" "a * c + d * f + g * i = 0"
    "b * a + e * d + h * g = 0" "b * b + e * e + h * h = 1" "b * c + e * f + h * i = 0"
    "c * a + f * d + i * g = 0" "c * b + f * e + i * h = 0" "c * c + f * f + i * i = 1"
    unfolding V np_eye3_def by simp_all
  have q: "0 < dot3 x (matvec A x)" if "x \<noteq> (0, 0, 0)" for x
    using pd that unfolding positive_definite_def by blast
  have n1: "(a, d, g) \<noteq> (0, 0, 0)" using o(1) by auto
  have n2: "(b, e, h) \<noteq> (0, 0, 0)" using o(5) by auto
  have n3: "(c, f, i) \<noteq> (0, 0, 0)" using o(9) by auto
  have "0 < l1"
    using q [OF n1] unfolding dec [symmetric] quadratic_form_decomposed
    unfolding V by (simp add: o)
  moreover have "0 < l2"
    using q [OF n2] unfolding dec [symmetric] quadratic_form_decomposed
    unfolding V by (simp add: o)
  moreover have "0 < l3"
    using q [OF n3] unfolding dec [symmetric] quadratic_form_decomposed
    unfolding V by (simp add: o)
  ultimately show ?thesis by simp
qed

lemma half_of_twice:
  "map_mat (fmul (Num (1 / 2)))
     (fmat_sub (map_mat Num (mat_add (mat_scale 2 s) np_eye3)) (map_mat Num np_eye3))
   = map_mat Num s"
proof -
  obtain a b c d e f g h i where s: "s = ((a, b, c), (d, e, f), (g, h, i))"
    by (rule mat3_cases)
  show ?thesis unfolding s np_eye3_def by simp
qed

lemma sqrtA_squares:
  assumes orth: "matmul (transpose3 V) V = np_eye3"
    and pos: "0 \<le> l1" "0 \<le> l2" "0 \<le> l3"
  defines "S \<equiv> matmul (matmul V (np_diag (sqrt l1, sqrt l2, sqrt l3))) (transpose3 V)"
  shows "matmul S (transpose3 S) = matmul (matmul V (np_diag (l1, l2, l3))) (transpose3 V)"
proof -
  let ?R = "np_diag (sqrt l1, sqrt l2, sqrt l3)"
  have t: "transpose3 S = S"
    by (simp add: S_def transpose3_matmul transpose3_transpose3 transpose3_diag matmul_assoc)
  have "matmul S S = matmul V (matmul ?R (matmul (matmul (transpose3 V) V) (matmul ?R (transpose3 V))))"
    by (simp only: S_def matmul_assoc)
  also have "\<dots> = matmul V (matmul (matmul ?R ?R) (transpose3 V))"
    by (simp only: orth matmul_eye matmul_assoc)
  also have "\<dots> = matmul (matmul V (np_diag (l1, l2, l3))) (transpose3 V)"
    by (simp only: sqrt_diag_square [OF pos] matmul_assoc)
  finally show ?thesis by (simp only: t)
qed

lemma strain_product:
  assumes W: "matmul W box0 = np_eye3"
  shows "matmul (matmul (matmul W (matmul box0 S)) (transpose3 (matmul box0 S))) (transpose3 W)
         = matmul S (transpose3 S)"
proof -
  have a: "matmul W (matmul box0 S) = S"
    by (simp add: matmul_assoc [symmetric] W matmul_eye)
  have "matmul (transpose3 box0) (transpose3 W) = transpose3 (matmul W box0)"
    by (simp add: transpose3_matmul)
  then have b: "matmul (transpose3 box0) (transpose3 W) = np_eye3"
    by (simp add: W transpose3_eye)
  have "matmul (matmul S (transpose3 (matmul box0 S))) (transpose3 W)
        = matmul S (matmul (transpose3 S) (matmul (transpose3 box0) (transpose3 W)))"
    by (simp add: transpose3_matmul matmul_assoc)
  then show ?thesis by (simp add: a b matmul_eye)
qed

lemma negative_eigenvalue_returned:
  assumes orth: "matmul (transpose3 V) V = np_eye3"
    and dec: "matmul (matmul V (np_diag (l1, l2, l3))) (transpose3 V) = A"
    and neg: "has_negative_eigenvalue A"
  shows "l1 < 0 \<or> l2 < 0 \<or> l3 < 0"
proof (rule ccontr)
  assume "\<not> (l1 < 0 \<or> l2 < 0 \<or> l3 < 0)"
  then have pos: "0 \<le> l1" "0 \<le> l2" "0 \<le> l3" by simp_all
  from neg obtain x l where x: "x \<noteq> (0, 0, 0)" and l: "l < 0" and ev: "matvec A x = scale3 l x"
    unfolding has_negative_eigenvalue_def by blast
  obtain p q r where xe: "x = (p, q, r)" by (cases x) auto
  have "0 \<le> dot3 x (matvec A x)"
    unfolding dec [symmetric] quadratic_form_decomposed
    using pos by (intro add_nonneg_nonneg mult_nonneg_nonneg) simp_all
  moreover have "dot3 x (matvec A x) = l * (p * p + q * q + r * r)"
    using ev unfolding xe by (simp add: algebra_simps)
  moreover have "0 < p * p + q * q + r * r"
  proof -
    have "0 \<le> p * p" "0 \<le> q * q" "0 \<le> r * r" by simp_all
    moreover have "0 < p * p \<or> 0 < q * q \<or> 0 < r * r"
      using x xe by (auto simp: zero_less_mult_iff)
    ultimately show ?thesis by linarith
  qed
  ultimately show False using l by (simp add: zero_le_mult_iff)
qed

text \<open>
  Claim C5, as the code has it. No error is reported for a symmetric strain whose
  \<open>2 s + I\<close> has a negative eigenvalue: the eigendecomposition returns a negative
  eigenvalue, its square root is NaN, and \<^verbatim>\<open>apply_strain\<close> returns a box every entry of
  which is NaN.
\<close>

theorem apply_strain_negative_eigenvalue:
  assumes sym: "symmetric s"
    and neg: "has_negative_eigenvalue (mat_add (mat_scale 2 s) np_eye3)"
    and eig: "eigh_decomposes np_linalg_eigh (mat_add (mat_scale 2 s) np_eye3)"
  shows "apply_strain np_linalg_eigh s box0 = Inr nan33"
proof -
  let ?A = "mat_add (mat_scale 2 s) np_eye3"
  obtain l1 l2 l3 V where e: "np_linalg_eigh ?A = ((l1, l2, l3), V)"
    by (cases "np_linalg_eigh ?A") auto
  from eig have orth: "matmul (transpose3 V) V = np_eye3"
    and dec: "matmul (matmul V (np_diag (l1, l2, l3))) (transpose3 V) = ?A"
    by (simp_all add: eigh_decomposes_def e)
  show ?thesis
    by (rule apply_strain_nan [of s np_linalg_eigh l1 l2 l3 V,
          OF symmetric_allclose [OF sym] e negative_eigenvalue_returned [OF orth dec neg]])
qed

theorem apply_strain_negative_eigenvalue_witness:
  "apply_strain example_eigh ((- 2, 0, 0), (0, - 1, 0), (0, 0, 0)) ((2, 0, 0), (1, 3, 0), (0, 0, 5))
     = Inr nan33"
proof -
  let ?s = "((- 2, 0, 0), (0, - 1, 0), (0, 0, 0)) :: mat3"
  have sym: "symmetric ?s" by (simp add: symmetric_def)
  have "(1, 0, 0) \<noteq> ((0, 0, 0) :: vec3) \<and> (- 3 :: real) < 0
        \<and> matvec (mat_add (mat_scale 2 ?s) np_eye3) (1, 0, 0) = scale3 (- 3) (1, 0, 0)"
    by (simp add: np_eye3_def)
  then have neg: "has_negative_eigenvalue (mat_add (mat_scale 2 ?s) np_eye3)"
    unfolding has_negative_eigenvalue_def by blast
  have eig: "eigh_decomposes example_eigh (mat_add (mat_scale 2 ?s) np_eye3)"
    by (simp add: eigh_decomposes_def example_eigh_def np_eye3_def)
  show ?thesis
    by (rule apply_strain_negative_eigenvalue [of ?s example_eigh, OF sym neg eig])
qed

text \<open>
  Claim C2, in exact arithmetic. For a symmetric \<open>s\<close> with \<open>2 s + I\<close> positive-definite,
  an invertible reference box and an eigendecomposition that decomposes \<open>2 s + I\<close>
  (orthonormal eigenvectors \<open>V\<close> and eigenvalues \<open>w\<close> with \<open>2 s + I = V diag(w) V\<^sup>T\<close>),
  \<^verbatim>\<open>apply_strain\<close> returns a box without NaN, and \<^verbatim>\<open>compute_strain\<close> of that box and the
  reference box returns \<open>s\<close>.
\<close>

theorem strain_round_trip:
  assumes sym: "symmetric s"
    and pd: "positive_definite (mat_add (mat_scale 2 s) np_eye3)"
    and inv: "invertible box0"
    and eig: "eigh_decomposes np_linalg_eigh (mat_add (mat_scale 2 s) np_eye3)"
  shows "\<exists>box. apply_strain np_linalg_eigh s box0 = Inr (map_mat Num box)
               \<and> compute_strain rounded (map_mat Num box) box0 = Inr (map_mat Num s)"
proof -
  let ?A = "mat_add (mat_scale 2 s) np_eye3"
  obtain l1 l2 l3 V where e: "np_linalg_eigh ?A = ((l1, l2, l3), V)"
    by (cases "np_linalg_eigh ?A") auto
  from eig have orth: "matmul (transpose3 V) V = np_eye3"
    and dec: "matmul (matmul V (np_diag (l1, l2, l3))) (transpose3 V) = ?A"
    by (simp_all add: eigh_decomposes_def e)
  from eigenvalues_positive [OF orth dec pd]
  have pos: "0 \<le> l1" "0 \<le> l2" "0 \<le> l3" by simp_all
  define S where "S = matmul (matmul V (np_diag (sqrt l1, sqrt l2, sqrt l3))) (transpose3 V)"
  have SS: "matmul S (transpose3 S) = ?A"
    unfolding S_def sqrtA_squares [OF orth pos] by (rule dec)
  have ap: "apply_strain np_linalg_eigh s box0 = Inr (map_mat Num (matmul box0 S))"
    unfolding apply_strain_eq [of np_linalg_eigh s "(l1, l2, l3)" V, OF e]
    by (simp only: symmetric_allclose [OF sym] sqrt_diag_Num [OF pos] fmatmul_Num
        transpose3_Num S_def) simp
  from inv have d: "det3 box0 \<noteq> 0" by (simp add: invertible_iff_det)
  define W where "W = mat_scale (1 / det3 box0) (adjugate box0)"
  have W: "matmul W box0 = np_eye3" unfolding W_def by (rule matmul_adjugate(2) [OF d])
  have cs: "compute_strain rounded (map_mat Num (matmul box0 S)) box0 = Inr (map_mat Num s)"
    using d
    by (simp add: compute_strain_def np_linalg_inv_def W_def [symmetric] fmatmul_Num
        transpose3_Num strain_product [OF W] SS half_of_twice)
  from ap cs show ?thesis by blast
qed

lemma example_positive_definite:
  "positive_definite (mat_add (mat_scale 2 ((0, 0, 0), (0, 3 / 2, 0), (0, 0, 3 / 2))) np_eye3)"
proof -
  have "0 < a * a + (4 * (b * b) + 4 * (c * c))" if "(a, b, c) \<noteq> (0, 0, 0)" for a b c :: real
  proof -
    have "0 \<le> a * a" "0 \<le> b * b" "0 \<le> c * c" by simp_all
    moreover have "0 < a * a \<or> 0 < b * b \<or> 0 < c * c"
      using that by (auto simp: zero_less_mult_iff)
    ultimately show ?thesis by linarith
  qed
  then show ?thesis
    by (auto simp: positive_definite_def np_eye3_def algebra_simps)
qed

theorem strain_round_trip_witness:
  "apply_strain example_eigh ((0, 0, 0), (0, 3 / 2, 0), (0, 0, 3 / 2)) ((2, 0, 0), (1, 3, 0), (0, 0, 5))
     = Inr (map_mat Num ((2, 0, 0), (1, 6, 0), (0, 0, 10)))
   \<and> compute_strain zero_pivot (map_mat Num ((2, 0, 0), (1, 6, 0), (0, 0, 10))) ((2, 0, 0), (1, 3, 0), (0, 0, 5))
     = Inr (map_mat Num ((0, 0, 0), (0, 3 / 2, 0), (0, 0, 3 / 2)))"
proof -
  let ?s = "((0, 0, 0), (0, 3 / 2, 0), (0, 0, 3 / 2)) :: mat3"
  let ?b = "((2, 0, 0), (1, 3, 0), (0, 0, 5)) :: mat3"
  have sym: "symmetric ?s" by (simp add: symmetric_def)
  have inv: "invertible ?b" by (simp add: invertible_iff_det)
  have eig: "eigh_decomposes example_eigh (mat_add (mat_scale 2 ?s) np_eye3)"
    by (simp add: eigh_decomposes_def example_eigh_def np_eye3_def)
  from strain_round_trip [of ?s ?b example_eigh zero_pivot, OF sym example_positive_definite inv eig]
  obtain box where ap: "apply_strain example_eigh ?s ?b = Inr (map_mat Num box)"
    and cs: "compute_strain zero_pivot (map_mat Num box) ?b = Inr (map_mat Num ?s)"
    by blast
  have "apply_strain example_eigh ?s ?b = Inr (map_mat Num ((2, 0, 0), (1, 6, 0), (0, 0, 10)))"
    by (simp add: apply_strain_def np_allclose_def close_to_def example_eigh_def np_eye3_def
        Let_def np_sqrt_def)
  with ap have "map_mat Num box = map_mat Num ((2, 0, 0), (1, 6, 0), (0, 0, 10))" by simp
  with ap cs show ?thesis by simp
qed

end
